theory Spec2Isabelle
  imports
    Main
    "HOL-Library.Sublist"
    "HOL-Library.Char_ord"
    "HOL-Library.List_Lexorder"
    "HOL-Library.Word"
begin

section \<open>The graph builder (jax2onnx/converter/onnx_builder.py)\<close>

subsection \<open>Data\<close>

text \<open>
  A shape element as the builder receives it: a Python int, \<open>None\<close>, a string, or a
  dimension-variable object of the tracing framework (an identity and its printed form).
\<close>

datatype dim = IntDim int | NoneDim | StrDim string | VarDim nat string

type_synonym shape = "dim list"

text \<open>
  The \<open>dtype\<close> argument: an ONNX enum (a Python int), a numpy scalar type, a numpy
  dtype instance, the Python type \<open>bool\<close>, a string, or anything else.
\<close>

datatype np_kind =
  Float32 | Float64 | Int8 | UInt8 | Int16 | UInt16 | Int32 | UInt32 | Int64 | UInt64 | Bool

datatype py_dtype =
  OnnxEnum int | NpScalarType np_kind | NpDtypeInst np_kind | PyBoolType
  | DtypeStr string | OtherDtype nat

datatype proto_dim = DimValue int | DimParam string

record value_info_proto =
  vi_name :: string
  vi_elem_type :: int
  vi_dims :: "proto_dim list"
  vi_doc_string :: string

record tensor_proto =
  t_name :: string
  t_data_type :: int
  t_dims :: "int list"

text \<open>
  A node with its attributes; a graph-valued attribute is kept as the node list of that
  graph, which is all the builder reads of it.
\<close>

datatype node =
  Node (node_name: string) (op_type: string) (node_input: "string list")
    (node_output: "string list") (attribute: "attr list")
and attr =
  AttrInt string int
  | AttrGraph string "node list"
  | AttrGraphs string "node list list"

record function_proto =
  fp_name :: string
  fp_input :: "string list"
  fp_output :: "string list"
  fp_node :: "node list"

text \<open>
  The converter back-reference. Both attributes are probed with \<open>hasattr\<close>/\<open>getattr\<close>,
  so each may be absent (\<open>None\<close>).
\<close>

record converter =
  symbolic_shapes :: "(string \<rightharpoonup> shape) option"
  symbolic_dim_to_origin :: "(dim \<rightharpoonup> string \<times> nat) option"

record builder =
  var_to_symbol_map :: "dim \<rightharpoonup> string"
  nodes :: "node list"
  inputs :: "value_info_proto list"
  outputs :: "value_info_proto list"
  initializers :: "tensor_proto list"
  value_info :: "value_info_proto list"
  opset :: int
  functions_dict :: "(string \<times> function_proto) list"
  model_name :: string
  value_info_metadata :: "string \<rightharpoonup> shape \<times> py_dtype"
  value_info_metadata_with_origin :: "string \<rightharpoonup> shape \<times> py_dtype \<times> string"
  dtype_env :: "string \<rightharpoonup> py_dtype"
  value_info_origin :: "string \<rightharpoonup> string"
  converter :: "converter option"
  initializers_by_name :: "string list option"

record graph_proto =
  g_node :: "node list"
  g_name :: string
  g_input :: "value_info_proto list"
  g_output :: "value_info_proto list"
  g_initializer :: "tensor_proto list"
  g_value_info :: "value_info_proto list"

text \<open>The two fatal conditions of \<open>_build_graph\<close>, each a \<open>RuntimeError\<close> in the source.\<close>

datatype build_error =
  NotTopologicallySorted string string string
  | MissingValueInfo "string list" string

subsection \<open>Helpers\<close>

text \<open>\<open>OnnxBuilder.__init__\<close>: \<open>initializers_by_name\<close> is not set by the constructor.\<close>

definition init_builder ::
  "int \<Rightarrow> string \<Rightarrow> tensor_proto list option \<Rightarrow> converter option \<Rightarrow> builder" where
  "init_builder ops mname inits conv =
     \<lparr> var_to_symbol_map = Map.empty, nodes = [], inputs = [], outputs = [],
       initializers = (case inits of None \<Rightarrow> [] | Some xs \<Rightarrow> xs),
       value_info = [], opset = ops, functions_dict = [], model_name = mname,
       value_info_metadata = Map.empty, value_info_metadata_with_origin = Map.empty,
       dtype_env = Map.empty, value_info_origin = Map.empty, converter = conv,
       initializers_by_name = None \<rparr>"

text \<open>\<open>() if shape is None else _as_tuple(shape)\<close>.\<close>

definition as_tuple :: "shape option \<Rightarrow> shape" where
  "as_tuple s = (case s of None \<Rightarrow> [] | Some xs \<Rightarrow> xs)"

fun string_of_nat :: "nat \<Rightarrow> string" where
  "string_of_nat n =
     (if n < 10 then [char_of (48 + n)]
      else string_of_nat (n div 10) @ [char_of (48 + n mod 10)])"

declare string_of_nat.simps [simp del]

definition string_of_int :: "int \<Rightarrow> string" where
  "string_of_int i = (if i < 0 then CHR ''-'' # string_of_nat (nat (- i)) else string_of_nat (nat i))"

text \<open>Python's \<open>str(dim)\<close>.\<close>

fun str_dim :: "dim \<Rightarrow> string" where
  "str_dim (IntDim i) = string_of_int i"
| "str_dim NoneDim = ''None''"
| "str_dim (StrDim s) = s"
| "str_dim (VarDim _ s) = s"

text \<open>\<open>_is_unknown_dim\<close>: \<open>d in (-1, None, "")\<close>.\<close>

definition is_unknown_dim :: "dim \<Rightarrow> bool" where
  "is_unknown_dim d = (d = IntDim (- 1) \<or> d = NoneDim \<or> d = StrDim [])"

text \<open>The test \<open>x in (-1, None)\<close> of \<open>_is_shape_more_specific\<close>.\<close>

definition in_minus_one_none :: "dim \<Rightarrow> bool" where
  "in_minus_one_none d = (d = IntDim (- 1) \<or> d = NoneDim)"

text \<open>
  \<open>_is_shape_more_specific(old, new)\<close>: a different rank, or some position where the old
  entry is \<open>-1\<close>/\<open>None\<close> and the new one is not.
\<close>

definition is_shape_more_specific :: "shape \<Rightarrow> shape \<Rightarrow> bool" where
  "is_shape_more_specific old new =
     (if length old \<noteq> length new then True
      else list_ex (\<lambda>(o', n'). in_minus_one_none o' \<and> \<not> in_minus_one_none n') (zip old new))"

text \<open>The ONNX element-type codes the table \<open>ONNX_DTYPE_MAP\<close> refers to.\<close>

fun onnx_code :: "np_kind \<Rightarrow> int" where
  "onnx_code Float32 = 1"
| "onnx_code UInt8 = 2"
| "onnx_code Int8 = 3"
| "onnx_code UInt16 = 4"
| "onnx_code Int16 = 5"
| "onnx_code Int32 = 6"
| "onnx_code Int64 = 7"
| "onnx_code Bool = 9"
| "onnx_code Float64 = 11"
| "onnx_code UInt32 = 12"
| "onnx_code UInt64 = 13"

text \<open>\<open>ONNX_DTYPE_MAP.get(dtype)\<close>; the table has no Python-int keys.\<close>

fun ONNX_DTYPE_MAP :: "py_dtype \<rightharpoonup> int" where
  "ONNX_DTYPE_MAP (NpScalarType k) = Some (onnx_code k)"
| "ONNX_DTYPE_MAP (NpDtypeInst k) = Some (onnx_code k)"
| "ONNX_DTYPE_MAP PyBoolType = Some 9"
| "ONNX_DTYPE_MAP (DtypeStr s) =
     (if s = ''int64'' then Some 7 else if s = ''bool'' then Some 9 else None)"
| "ONNX_DTYPE_MAP (OnnxEnum _) = None"
| "ONNX_DTYPE_MAP (OtherDtype _) = None"

text \<open>
  \<open>_resolve_symbol(obj, dim)\<close>:
  \<open>resolved = m.get(dim, m.get(str(dim))); final = resolved or str(dim)\<close>.
\<close>

definition resolve_symbol :: "builder \<Rightarrow> dim \<Rightarrow> string" where
  "resolve_symbol b d =
     (let resolved = (case var_to_symbol_map b d of
                        Some r \<Rightarrow> Some r
                      | None \<Rightarrow> var_to_symbol_map b (StrDim (str_dim d)))
      in case resolved of
           None \<Rightarrow> str_dim d
         | Some r \<Rightarrow> (if r = [] then str_dim d else r))"

text \<open>\<open>make_value_info(name, shape, dtype)\<close>.\<close>

definition elem_type_of :: "py_dtype \<Rightarrow> int" where
  "elem_type_of dt =
     (case dt of
        OnnxEnum i \<Rightarrow> i
      | _ \<Rightarrow> (case ONNX_DTYPE_MAP dt of Some c \<Rightarrow> c | None \<Rightarrow> 1))"

definition dim_proto :: "builder \<Rightarrow> dim \<Rightarrow> proto_dim" where
  "dim_proto b d = (case d of IntDim i \<Rightarrow> DimValue i | _ \<Rightarrow> DimParam (resolve_symbol b d))"

definition make_value_info :: "builder \<Rightarrow> string \<Rightarrow> shape option \<Rightarrow> py_dtype \<Rightarrow> value_info_proto" where
  "make_value_info b name shp dt =
     \<lparr> vi_name = name, vi_elem_type = elem_type_of dt,
       vi_dims = map (dim_proto b) (as_tuple shp), vi_doc_string = [] \<rparr>"

subsection \<open>Registration\<close>

text \<open>
  \<open>_register_symbol_origin(dim, tensor_name, axis)\<close>: nothing without a converter;
  otherwise the mapping is created when absent and written under the dimension and
  under its printed form.
\<close>

definition register_symbol_origin :: "dim \<Rightarrow> string \<Rightarrow> nat \<Rightarrow> builder \<Rightarrow> builder" where
  "register_symbol_origin d tensor_name axis b =
     (case converter b of
        None \<Rightarrow> b
      | Some conv \<Rightarrow>
          (let mapping = (case symbolic_dim_to_origin conv of None \<Rightarrow> Map.empty | Some m \<Rightarrow> m);
               mapping1 = mapping(d \<mapsto> (tensor_name, axis));
               mapping2 = mapping1(StrDim (str_dim d) \<mapsto> (tensor_name, axis))
           in b\<lparr>converter := Some (conv\<lparr>symbolic_dim_to_origin := Some mapping2\<rparr>)\<rparr>))"

text \<open>
  The loop \<open>for axis, dim in enumerate(shape): if not isinstance(dim, int): ...\<close> shared by
  \<open>add_input\<close>, \<open>add_output\<close> and \<open>add_value_info\<close>.
\<close>

fun register_symbol_origins :: "string \<Rightarrow> nat \<Rightarrow> shape \<Rightarrow> builder \<Rightarrow> builder" where
  "register_symbol_origins name axis [] b = b"
| "register_symbol_origins name axis (d # ds) b =
     register_symbol_origins name (Suc axis) ds
       (case d of IntDim _ \<Rightarrow> b | _ \<Rightarrow> register_symbol_origin d name axis b)"

text \<open>
  \<open>register_value_info_metadata(name, shape, dtype, origin)\<close>. The lookup in the
  converter's \<open>symbolic_shapes\<close> rebinds the local \<open>shape\<close> only, which is logged and not
  stored: both tables receive \<open>shape_tuple\<close>, unconditionally.
\<close>

definition register_value_info_metadata ::
  "string \<Rightarrow> shape option \<Rightarrow> py_dtype \<Rightarrow> string option \<Rightarrow> builder \<Rightarrow> builder" where
  "register_value_info_metadata name shp dt origin b =
     (let shape_tuple = as_tuple shp;
          origin' = (case origin of None \<Rightarrow> ''traced'' | Some s \<Rightarrow> (if s = [] then ''traced'' else s))
      in b\<lparr> value_info_metadata := (value_info_metadata b)(name \<mapsto> (shape_tuple, dt)),
            value_info_metadata_with_origin :=
              (value_info_metadata_with_origin b)(name \<mapsto> (shape_tuple, dt, origin')) \<rparr>)"

text \<open>\<open>add_value_info(name, shape, dtype)\<close>.\<close>

definition add_value_info :: "string \<Rightarrow> shape option \<Rightarrow> py_dtype \<Rightarrow> builder \<Rightarrow> builder" where
  "add_value_info name shp dt b =
     (let shape_tuple0 = as_tuple shp;
          shape_tuple =
            (case converter b of
               None \<Rightarrow> shape_tuple0
             | Some conv \<Rightarrow>
                 (case symbolic_shapes conv of
                    None \<Rightarrow> shape_tuple0
                  | Some ss \<Rightarrow> (case ss name of None \<Rightarrow> shape_tuple0 | Some s \<Rightarrow> s)));
          vi0 = make_value_info b name (Some shape_tuple) dt;
          vi = (case value_info_origin b name of
                  None \<Rightarrow> vi0
                | Some origin \<Rightarrow>
                    (if origin = [] then vi0 else vi0\<lparr>vi_doc_string := ''origin: '' @ origin\<rparr>));
          b1 = b\<lparr>value_info := value_info b @ [vi]\<rparr>;
          onnx_dtype = (case dt of OnnxEnum i \<Rightarrow> OnnxEnum i | _ \<Rightarrow> OnnxEnum (vi_elem_type vi));
          b2 = register_value_info_metadata name (Some shape_tuple) onnx_dtype None b1
      in register_symbol_origins name 0 shape_tuple b2)"

text \<open>\<open>_add_tensor(collection, name, shape, dtype)\<close> builds the entry that is appended.\<close>

definition add_tensor_entry :: "builder \<Rightarrow> string \<Rightarrow> shape option \<Rightarrow> py_dtype \<Rightarrow> value_info_proto" where
  "add_tensor_entry b name shp dt = make_value_info b name (Some (as_tuple shp)) dt"

text \<open>
  \<open>add_input(name, shape, dtype)\<close>: a name produced by a node only gets value-info; a
  name already among the inputs returns at once; otherwise the input is appended.
\<close>

definition add_input :: "string \<Rightarrow> shape option \<Rightarrow> py_dtype \<Rightarrow> builder \<Rightarrow> builder" where
  "add_input name shp dt b =
     (if list_ex (\<lambda>n. name \<in> set (node_output n)) (nodes b) then add_value_info name shp dt b
      else if list_ex (\<lambda>vi. vi_name vi = name) (inputs b) then b
      else
        (let b1 = b\<lparr>dtype_env := (dtype_env b)(name \<mapsto> dt)\<rparr>;
             b2 = b1\<lparr>inputs := inputs b1 @ [add_tensor_entry b1 name shp dt]\<rparr>
         in case shp of None \<Rightarrow> b2 | Some s \<Rightarrow> register_symbol_origins name 0 s b2))"

text \<open>\<open>add_output(name, shape, dtype)\<close>.\<close>

definition add_output :: "string \<Rightarrow> shape option \<Rightarrow> py_dtype \<Rightarrow> builder \<Rightarrow> builder" where
  "add_output name shp dt b =
     (if list_ex (\<lambda>vi. vi_name vi = name) (outputs b) then b
      else
        (let b1 = b\<lparr>dtype_env := (dtype_env b)(name \<mapsto> dt)\<rparr>;
             b2 = b1\<lparr>outputs := outputs b1 @ [add_tensor_entry b1 name shp dt]\<rparr>
         in case shp of None \<Rightarrow> b2 | Some s \<Rightarrow> register_symbol_origins name 0 s b2))"

text \<open>\<open>add_node(node)\<close>.\<close>

definition add_node :: "node \<Rightarrow> builder \<Rightarrow> builder" where
  "add_node n b = b\<lparr>nodes := nodes b @ [n]\<rparr>"

text \<open>\<open>add_scalar_input(name, dtype)\<close>: no test of the existing inputs.\<close>

definition add_scalar_input :: "string \<Rightarrow> py_dtype \<Rightarrow> builder \<Rightarrow> builder" where
  "add_scalar_input name dt b =
     (let vi = make_value_info b name (Some []) dt;
          b1 = b\<lparr>inputs := inputs b @ [vi]\<rparr>
      in register_value_info_metadata name (Some []) dt (Some ''call_parameter'') b1)"

text \<open>A sequence of input and output declarations, run in order.\<close>

datatype declaration_call =
  DeclareInput string "shape option" py_dtype
  | DeclareOutput string "shape option" py_dtype

fun run_declaration :: "declaration_call \<Rightarrow> builder \<Rightarrow> builder" where
  "run_declaration (DeclareInput name shp dt) b = add_input name shp dt b"
| "run_declaration (DeclareOutput name shp dt) b = add_output name shp dt b"

fun run_declarations :: "declaration_call list \<Rightarrow> builder \<Rightarrow> builder" where
  "run_declarations [] b = b"
| "run_declarations (c # cs) b = run_declarations cs (run_declaration c b)"

subsection \<open>Finalization\<close>

text \<open>\<open>filter_unused_initializers\<close>.\<close>

definition filter_unused_initializers :: "builder \<Rightarrow> builder" where
  "filter_unused_initializers b =
     (let used_inputs =
            set (concat (map node_input (nodes b)))
            \<union> set (concat (map (\<lambda>(_, f). concat (map node_input (fp_node f))) (functions_dict b)))
      in b\<lparr>initializers := filter (\<lambda>init. t_name init \<in> used_inputs) (initializers b)\<rparr>)"

text \<open>
  \<open>_assert_topologically_sorted\<close>: the inner loop returns the first input that is
  non-empty and not available; the outer loop walks the nodes in stored order.
\<close>

fun first_unavailable :: "string set \<Rightarrow> string list \<Rightarrow> string option" where
  "first_unavailable avail [] = None"
| "first_unavailable avail (inp # rest) =
     (if inp \<noteq> [] \<and> inp \<notin> avail then Some inp else first_unavailable avail rest)"

fun walk_nodes :: "string set \<Rightarrow> node list \<Rightarrow> build_error + unit" where
  "walk_nodes avail [] = Inr ()"
| "walk_nodes avail (n # ns) =
     (case first_unavailable avail (node_input n) of
        Some inp \<Rightarrow> Inl (NotTopologicallySorted (node_name n) (op_type n) inp)
      | None \<Rightarrow> walk_nodes (avail \<union> set (node_output n)) ns)"

definition assert_topologically_sorted :: "builder \<Rightarrow> build_error + unit" where
  "assert_topologically_sorted b =
     walk_nodes (set (map vi_name (inputs b)) \<union> set (map t_name (initializers b))) (nodes b)"

text \<open>
  \<open>_filter_redundant_inputs\<close>. The names consumed inside graph-valued attributes count
  as consumed; \<open>initializers_by_name\<close> is built only when the attribute does not exist yet.
\<close>

fun attr_sub_inputs :: "attr \<Rightarrow> string list" where
  "attr_sub_inputs (AttrGraph _ g) = concat (map (\<lambda>sn. filter (\<lambda>t. t \<noteq> []) (node_input sn)) g)"
| "attr_sub_inputs (AttrGraphs _ gs) =
     concat (map (\<lambda>g. concat (map (\<lambda>sn. filter (\<lambda>t. t \<noteq> []) (node_input sn)) g)) gs)"
| "attr_sub_inputs (AttrInt _ _) = []"

definition filter_redundant_inputs :: "builder \<Rightarrow> builder" where
  "filter_redundant_inputs b =
     (let node_in = set (concat (map (\<lambda>n. filter (\<lambda>t. t \<noteq> []) (node_input n)
                                          @ concat (map attr_sub_inputs (attribute n))) (nodes b)));
          node_out = set (concat (map (\<lambda>n. filter (\<lambda>t. t \<noteq> []) (node_output n)) (nodes b)));
          by_name = (case initializers_by_name b of
                       None \<Rightarrow> map t_name (initializers b)
                     | Some ks \<Rightarrow> ks);
          inits = set by_name;
          g_outs = set (map vi_name (outputs b))
      in b\<lparr> initializers_by_name := Some by_name,
            inputs := filter (\<lambda>vi. (vi_name vi \<in> node_in \<or> vi_name vi \<in> g_outs)
                                   \<and> vi_name vi \<notin> node_out \<and> vi_name vi \<notin> inits) (inputs b) \<rparr>)"

text \<open>\<open>find_missing_value_info\<close>: the sorted list of the node names that are not known.\<close>

definition known_names :: "builder \<Rightarrow> string set" where
  "known_names b =
     set (map vi_name (inputs b @ outputs b @ value_info b)) \<union> set (map t_name (initializers b))"

definition find_missing_value_info :: "builder \<Rightarrow> string list" where
  "find_missing_value_info b =
     (let node_names = concat (map (\<lambda>n. node_input n @ node_output n) (nodes b))
      in sort (remdups (filter (\<lambda>name. name \<notin> known_names b) node_names)))"

text \<open>\<open>_register_deterministic_parameters(missing_names)\<close>.\<close>

definition is_deterministic_name :: "string \<Rightarrow> bool" where
  "is_deterministic_name name = (suffix ''_deterministic'' name \<or> name = ''deterministic'')"

fun register_deterministic_parameters :: "string list \<Rightarrow> builder \<Rightarrow> string list \<times> builder" where
  "register_deterministic_parameters [] b = ([], b)"
| "register_deterministic_parameters (name # rest) b =
     (if is_deterministic_name name then
        register_deterministic_parameters rest
          (add_value_info name (Some []) (OnnxEnum 9)
             (register_value_info_metadata name (Some []) (OnnxEnum 9)
                (Some ''auto-registered deterministic flag'') b))
      else
        (let (remaining, b') = register_deterministic_parameters rest b
         in (name # remaining, b')))"

text \<open>
  \<open>_build_graph(name, is_subgraph, empty_inputs)\<close>. An error is the raised
  \<open>RuntimeError\<close>; a result is the graph together with the builder as the call left it.
\<close>

definition build_graph ::
  "string option \<Rightarrow> bool \<Rightarrow> bool \<Rightarrow> builder \<Rightarrow> build_error + graph_proto \<times> builder" where
  "build_graph name is_subgraph empty_inputs b =
     (let gname = (case name of None \<Rightarrow> model_name b
                   | Some s \<Rightarrow> (if s = [] then model_name b else s));
          b1 = filter_unused_initializers b
      in case assert_topologically_sorted b1 of
           Inl e \<Rightarrow> Inl e
         | Inr _ \<Rightarrow>
             (let b2 = (if \<not> is_subgraph then filter_redundant_inputs b1 else b1);
                  missing0 = find_missing_value_info b2;
                  (missing1, b3) = (if missing0 \<noteq> [] then register_deterministic_parameters missing0 b2
                                    else (missing0, b2));
                  missing2 = (if missing1 \<noteq> []
                              then filter (\<lambda>m. \<not> prefix ''conv_transpose_out'' m) missing1
                              else missing1)
              in if missing2 \<noteq> [] then Inl (MissingValueInfo missing2 gname)
                 else Inr (\<lparr> g_node = nodes b3, g_name = gname,
                             g_input = (if empty_inputs then [] else inputs b3),
                             g_output = outputs b3, g_initializer = initializers b3,
                             g_value_info = value_info b3 \<rparr>, b3)))"

section \<open>The scatter legalizer (jax2onnx/plugins/jax/lax/scatter_utils.py)\<close>

subsection \<open>Data\<close>

text \<open>
  A dimension as the legalizer meets it: a Python int, a numpy integer, or any other
  object. An object has an identity (what \<open>is\<close> compares); it may be a \<open>Literal\<close> whose
  \<open>val\<close> is a Python int; and \<open>int(obj)\<close> returns a number or raises.
\<close>

datatype int_outcome = IntValue int | IntTypeError | IntValueError

datatype sdim = PyInt int | NpInt int | Obj nat "int option" int_outcome

type_synonym sshape = "sdim list"

text \<open>\<open>ScatterDimensionNumbers\<close>: the four fields the legalizer reads.\<close>

record dimension_numbers =
  update_window_dims :: "nat list"
  inserted_window_dims :: "nat list"
  scatter_dims_to_operand_dims :: "nat list"
  operand_batching_dims :: "nat list"

text \<open>A traced variable: the name \<open>s.get_name(v)\<close> gives it, and its abstract value.\<close>

record traced_var =
  var_name :: string
  aval_shape :: sshape
  aval_dtype :: np_kind

text \<open>
  The converter \<open>s\<close> is not part of this module, so what the legalizer asks of it is a
  parameter. The three optional methods are probed with \<open>hasattr\<close> (absent: \<open>None\<close>);
  \<open>is_symbolic_dim\<close> and \<open>_dim_to_symbol_safe\<close> may raise (result \<open>None\<close>);
  \<open>get_concrete_value_from_symbolic_dim\<close> returns an int or Python's \<open>None\<close>. The two
  naming functions give the name handed out for a base name, or for a constant, when a
  given number of names has been handed out before.
\<close>

record conv_methods =
  is_symbolic_dim :: "(sdim \<Rightarrow> bool option) option"
  get_concrete_value_from_symbolic_dim :: "(sdim \<Rightarrow> int option) option"
  dim_to_symbol_safe :: "(sdim \<Rightarrow> sdim option) option"
  unique_name_for :: "string \<Rightarrow> nat \<Rightarrow> string"
  constant_name_for :: "nat \<Rightarrow> string"

datatype const_array = ScalarArray int | VectorArray "int list"

text \<open>What the legalizer changes in the converter.\<close>

record conv_state =
  emitted_nodes :: "node list"
  shape_env :: "string \<rightharpoonup> sshape \<times> np_kind"
  shape_info :: "(string \<times> sshape \<times> np_kind) list"
  constants :: "(string \<times> const_array) list"
  names_issued :: nat

text \<open>
  The exceptions. The messages of the source are kept as their data; the last three are
  not raised by a \<open>raise\<close> of this module but by \<open>int(...)\<close>, by the converter's
  \<open>_dim_to_symbol_safe\<close>, and by tuple indexing.
\<close>

datatype scatter_error =
  CannotMakeConcrete string sshape sdim nat
  | ReshapeTargetIndices sshape scatter_error
  | NegativeIndexDepth int
  | IndexDepthExceedsRank int nat
  | IndexDepthNotConcrete sdim
  | ElementCountMismatch sshape int sshape int string sshape string sshape dimension_numbers
  | CouldNotPrepareUpdates scatter_error string sshape string sshape dimension_numbers
  | IntConversionValueError sdim
  | IntConversionTypeError sdim
  | SymbolLookupFailed sdim
  | IndexOutOfRange

text \<open>Which of them an \<open>except ValueError\<close> clause catches.\<close>

fun is_value_error :: "scatter_error \<Rightarrow> bool" where
  "is_value_error (IntConversionTypeError _) = False"
| "is_value_error (SymbolLookupFailed _) = False"
| "is_value_error IndexOutOfRange = False"
| "is_value_error _ = True"

definition bind_result :: "'e + 'a \<Rightarrow> ('a \<Rightarrow> 'e + 'b) \<Rightarrow> 'e + 'b" where
  "bind_result m f = (case m of Inl e \<Rightarrow> Inl e | Inr v \<Rightarrow> f v)"

subsection \<open>Dimension and shape helpers\<close>

text \<open>\<open>_is_dim_symbolic(dim_val, s)\<close>.\<close>

definition is_dim_symbolic :: "conv_methods \<Rightarrow> sdim \<Rightarrow> bool" where
  "is_dim_symbolic s dim_val =
     (case dim_val of
        PyInt _ \<Rightarrow> False
      | NpInt _ \<Rightarrow> False
      | Obj _ _ _ \<Rightarrow>
          (case is_symbolic_dim s of
             None \<Rightarrow> True
           | Some f \<Rightarrow> (case f dim_val of Some r \<Rightarrow> r | None \<Rightarrow> True)))"

text \<open>Python's \<open>int(dim)\<close>.\<close>

fun py_int :: "sdim \<Rightarrow> scatter_error + int" where
  "py_int (PyInt i) = Inr i"
| "py_int (NpInt i) = Inr i"
| "py_int (Obj n l (IntValue v)) = Inr v"
| "py_int (Obj n l IntTypeError) = Inl (IntConversionTypeError (Obj n l IntTypeError))"
| "py_int (Obj n l IntValueError) = Inl (IntConversionValueError (Obj n l IntValueError))"

text \<open>
  \<open>dim1 is dim2\<close>, which the source evaluates only when both dimensions are symbolic,
  hence both objects.
\<close>

fun same_object :: "sdim \<Rightarrow> sdim \<Rightarrow> bool" where
  "same_object (Obj a _ _) (Obj b _ _) = (a = b)"
| "same_object _ _ = False"

text \<open>\<open>_are_dims_equal(dim1, dim2, s)\<close>.\<close>

definition are_dims_equal :: "conv_methods \<Rightarrow> sdim \<Rightarrow> sdim \<Rightarrow> scatter_error + bool" where
  "are_dims_equal s dim1 dim2 =
     (let is_dim1_sym = is_dim_symbolic s dim1;
          is_dim2_sym = is_dim_symbolic s dim2
      in if \<not> is_dim1_sym \<and> \<not> is_dim2_sym then
           bind_result (py_int dim1) (\<lambda>a. bind_result (py_int dim2) (\<lambda>b. Inr (a = b)))
         else if is_dim1_sym \<noteq> is_dim2_sym then Inr False
         else Inr (same_object dim1 dim2))"

text \<open>\<open>_are_shapes_equal(shape1, shape2, s)\<close>: the loop over \<open>zip(shape1, shape2)\<close>.\<close>

fun dims_all_equal :: "conv_methods \<Rightarrow> (sdim \<times> sdim) list \<Rightarrow> scatter_error + bool" where
  "dims_all_equal s [] = Inr True"
| "dims_all_equal s ((d1, d2) # rest) =
     bind_result (are_dims_equal s d1 d2)
       (\<lambda>eq. if \<not> eq then Inr False else dims_all_equal s rest)"

definition are_shapes_equal :: "conv_methods \<Rightarrow> sshape \<Rightarrow> sshape \<Rightarrow> scatter_error + bool" where
  "are_shapes_equal s shape1 shape2 =
     (if length shape1 \<noteq> length shape2 then Inr False
      else dims_all_equal s (zip shape1 shape2))"

text \<open>
  \<open>_make_shape_concrete_for_prod(shp, s, context_msg)\<close>: one dimension, then the loop
  with its index.
\<close>

definition concrete_dim ::
  "conv_methods \<Rightarrow> sshape \<Rightarrow> string \<Rightarrow> nat \<Rightarrow> sdim \<Rightarrow> scatter_error + int" where
  "concrete_dim s shp context_msg i dim_val =
     (case dim_val of
        PyInt v \<Rightarrow> Inr v
      | NpInt v \<Rightarrow> Inr v
      | Obj _ lit _ \<Rightarrow>
          (let val_to_append =
                 (case get_concrete_value_from_symbolic_dim s of
                    None \<Rightarrow> None
                  | Some f \<Rightarrow> f dim_val)
           in case val_to_append of
                Some v \<Rightarrow> Inr v
              | None \<Rightarrow>
                  (case lit of
                     Some v \<Rightarrow> Inr v
                   | None \<Rightarrow> Inl (CannotMakeConcrete context_msg shp dim_val i))))"

fun make_concrete_from ::
  "conv_methods \<Rightarrow> sshape \<Rightarrow> string \<Rightarrow> nat \<Rightarrow> sshape \<Rightarrow> scatter_error + int list" where
  "make_concrete_from s shp context_msg i [] = Inr []"
| "make_concrete_from s shp context_msg i (d # ds) =
     bind_result (concrete_dim s shp context_msg i d)
       (\<lambda>v. bind_result (make_concrete_from s shp context_msg (Suc i) ds) (\<lambda>vs. Inr (v # vs)))"

definition make_shape_concrete_for_prod ::
  "sshape \<Rightarrow> conv_methods \<Rightarrow> string \<Rightarrow> scatter_error + int list" where
  "make_shape_concrete_for_prod shp s context_msg = make_concrete_from s shp context_msg 0 shp"

text \<open>
  \<open>np.prod\<close> of a non-empty tuple of Python ints: a 64-bit signed product, which wraps.
  (Each dimension is taken to fit 64 bits.)
\<close>

definition np_prod :: "int list \<Rightarrow> int" where
  "np_prod xs = sint (word_of_int (prod_list xs) :: 64 word)"

subsection \<open>Effects on the converter\<close>

definition get_unique_name :: "conv_methods \<Rightarrow> string \<Rightarrow> conv_state \<Rightarrow> string \<times> conv_state" where
  "get_unique_name s base st =
     (unique_name_for s base (names_issued st), st\<lparr>names_issued := Suc (names_issued st)\<rparr>)"

definition get_constant_name ::
  "conv_methods \<Rightarrow> const_array \<Rightarrow> conv_state \<Rightarrow> string \<times> conv_state" where
  "get_constant_name s v st =
     (let name = constant_name_for s (names_issued st)
      in (name, st\<lparr>names_issued := Suc (names_issued st),
                   constants := constants st @ [(name, v)]\<rparr>))"

text \<open>\<open>s.add_node(helper.make_node(op, inputs, outputs, **attrs))\<close>: the node has no name.\<close>

definition emit :: "string \<Rightarrow> string list \<Rightarrow> string list \<Rightarrow> attr list \<Rightarrow> conv_state \<Rightarrow> conv_state" where
  "emit op ins outs attrs st = st\<lparr>emitted_nodes := emitted_nodes st @ [Node [] op ins outs attrs]\<rparr>"

text \<open>
  \<open>_manually_ensure_shape_env_entry\<close>: integers are stored as Python ints, other
  dimensions through \<open>_dim_to_symbol_safe\<close> when it is there and does not raise. The
  function catches every exception, so it never raises; the constructor of the stored
  record and \<open>s.add_shape_info\<close> are taken to succeed.
\<close>

definition env_dim :: "conv_methods \<Rightarrow> sdim \<Rightarrow> sdim" where
  "env_dim s dim_val =
     (case dim_val of
        PyInt v \<Rightarrow> PyInt v
      | NpInt v \<Rightarrow> PyInt v
      | Obj _ _ _ \<Rightarrow>
          (case dim_to_symbol_safe s of
             None \<Rightarrow> dim_val
           | Some f \<Rightarrow> (case f dim_val of Some d \<Rightarrow> d | None \<Rightarrow> dim_val)))"

definition manually_ensure_shape_env_entry ::
  "conv_methods \<Rightarrow> string \<Rightarrow> sshape \<Rightarrow> np_kind \<Rightarrow> conv_state \<Rightarrow> conv_state" where
  "manually_ensure_shape_env_entry s tensor_name tensor_shape dt st =
     (let shape_tuple_for_sds = map (env_dim s) tensor_shape
      in st\<lparr>shape_env := (shape_env st)(tensor_name \<mapsto> (shape_tuple_for_sds, dt)),
            shape_info := shape_info st @ [(tensor_name, shape_tuple_for_sds, dt)]\<rparr>)"

text \<open>The local function \<open>to_symbolic_tuple\<close>; an exception of the converter propagates.\<close>

fun map_result :: "('a \<Rightarrow> 'e + 'b) \<Rightarrow> 'a list \<Rightarrow> 'e + 'b list" where
  "map_result f [] = Inr []"
| "map_result f (x # xs) =
     bind_result (f x) (\<lambda>y. bind_result (map_result f xs) (\<lambda>ys. Inr (y # ys)))"

definition to_symbolic_tuple :: "conv_methods \<Rightarrow> sshape \<Rightarrow> scatter_error + sshape" where
  "to_symbolic_tuple s jax_shape =
     (case dim_to_symbol_safe s of
        None \<Rightarrow> Inr jax_shape
      | Some f \<Rightarrow>
          map_result (\<lambda>d. case f d of Some d' \<Rightarrow> Inr d' | None \<Rightarrow> Inl (SymbolLookupFailed d))
            jax_shape)"

subsection \<open>\<open>_prepare_scatter_inputs_for_onnx\<close>, stage by stage\<close>

text \<open>
  The source is one long function; the model follows it block by block, each block a
  definition, and \<open>prepare_scatter_inputs_for_onnx\<close> below chains them in source order.
\<close>

text \<open>The index cast: inserted when the indices are not 64-bit integers.\<close>

definition cast_indices ::
  "conv_methods \<Rightarrow> string \<Rightarrow> sshape \<Rightarrow> np_kind \<Rightarrow> conv_state \<Rightarrow> string \<times> conv_state" where
  "cast_indices s indices_name shp jax_indices_dtype st =
     (if jax_indices_dtype \<noteq> Int64 then
        (let (cast_indices_out_name, st1) = get_unique_name s (indices_name @ ''_int64'') st;
             st2 = emit ''Cast'' [indices_name] [cast_indices_out_name] [AttrInt ''to'' 7] st1;
             st3 = manually_ensure_shape_env_entry s cast_indices_out_name shp Int64 st2
         in (cast_indices_out_name, st3))
      else (indices_name, st))"

text \<open>
  The last branch of the target-shape inference: \<open>common_N_val_gen\<close>, computed in a
  \<open>try\<close> whose \<open>except ValueError\<close> falls back to \<open>-1\<close>.
\<close>

definition generic_common_n :: "conv_methods \<Rightarrow> sshape \<Rightarrow> nat \<Rightarrow> scatter_error + sdim" where
  "generic_common_n s cur index_depth_k =
     (if cur \<noteq> [] then
        (let attempt =
               bind_result
                 (if length cur > 1 then are_dims_equal s (last cur) (PyInt (int index_depth_k))
                  else Inr False)
                 (\<lambda>last_is_k.
                    if last_is_k then
                      bind_result (make_shape_concrete_for_prod (butlast cur) s ''commonN_prod_gen'')
                        (\<lambda>c. Inr (NpInt (np_prod c)))
                    else if length cur = 1 \<and> index_depth_k = 0 then
                      bind_result (make_shape_concrete_for_prod [cur ! 0] s ''commonN_K0_gen'')
                        (\<lambda>c. Inr (PyInt (hd c)))
                    else Inr (PyInt (- 1)))
         in case attempt of
              Inl e \<Rightarrow> (if is_value_error e then Inr (PyInt (- 1)) else Inl e)
            | Inr n \<Rightarrow> Inr n)
      else Inr (PyInt 1))"

text \<open>
  Target indices shape inference: the case analysis on the current indices shape
  against \<open>index_depth_k = len(scatter_dims_to_operand_dims)\<close>. Each \<open>elif\<close> condition is
  evaluated only when the ones before it were false, and within a condition \<open>and\<close>
  stops at the first false operand.
\<close>

definition infer_target_indices_shape ::
  "conv_methods \<Rightarrow> sshape \<Rightarrow> nat \<Rightarrow> scatter_error + sshape" where
  "infer_target_indices_shape s cur index_depth_k =
     (let k = PyInt (int index_depth_k) in
      if cur = [] then
        Inr [PyInt 1, PyInt (if index_depth_k > 0 then int index_depth_k else 0)]
      else
        bind_result
          (if length cur = 1 \<and> index_depth_k > 0 then are_dims_equal s (cur ! 0) k else Inr False)
          (\<lambda>one_index_vector.
             if one_index_vector then Inr [PyInt 1, k]
             else
               bind_result
                 (if index_depth_k > 0 \<and> length cur > 0 then are_dims_equal s (last cur) k
                  else Inr False)
                 (\<lambda>trailing_is_k.
                    if trailing_is_k then
                      (let batch_dims_indices = butlast cur in
                       if batch_dims_indices = [] then Inr [PyInt 1, k]
                       else
                         (case make_shape_concrete_for_prod batch_dims_indices s
                                 ''indices_batch_prod_gen'' of
                            Inr c \<Rightarrow> Inr [NpInt (np_prod c), k]
                          | Inl e \<Rightarrow> (if is_value_error e then Inr [PyInt (- 1), k] else Inl e)))
                    else if index_depth_k = 0 \<and> length cur = 1 then Inr [cur ! 0, PyInt 0]
                    else
                      bind_result
                        (if length cur = 2 then are_dims_equal s (cur ! 1) k else Inr False)
                        (\<lambda>already_n_k.
                           if already_n_k then Inr cur
                           else bind_result (generic_common_n s cur index_depth_k)
                                  (\<lambda>n. Inr [n, k])))))"

text \<open>
  The integer list given to a Reshape node: a Python int is copied, the first dimension
  that is not a Python int becomes \<open>-1\<close>, and every later one must be made concrete.
\<close>

fun reshape_target_list ::
  "conv_methods \<Rightarrow> string \<Rightarrow> nat \<Rightarrow> bool \<Rightarrow> sshape \<Rightarrow> scatter_error + int list" where
  "reshape_target_list s ctx i has_minus_one_already [] = Inr []"
| "reshape_target_list s ctx i has_minus_one_already (d # ds) =
     (case d of
        PyInt v \<Rightarrow>
          bind_result (reshape_target_list s ctx (Suc i) has_minus_one_already ds)
            (\<lambda>r. Inr (v # r))
      | _ \<Rightarrow>
          if \<not> has_minus_one_already then
            bind_result (reshape_target_list s ctx (Suc i) True ds) (\<lambda>r. Inr (- 1 # r))
          else
            bind_result (make_shape_concrete_for_prod [d] s (ctx @ string_of_nat i))
              (\<lambda>c. bind_result (reshape_target_list s ctx (Suc i) True ds)
                      (\<lambda>r. Inr (hd c # r))))"

text \<open>The indices reshape: emitted when the current shape differs from the target.\<close>

definition reshape_indices ::
  "conv_methods \<Rightarrow> string \<Rightarrow> sshape \<Rightarrow> sshape \<Rightarrow> conv_state \<Rightarrow>
   scatter_error + string \<times> conv_state" where
  "reshape_indices s indices_name cur target st =
     bind_result (are_shapes_equal s cur target)
       (\<lambda>same.
          if \<not> same then
            (let (reshaped_indices_name, st1) =
                   get_unique_name s (indices_name @ ''_reshaped_idx_auto'') st
             in case reshape_target_list s ''reshape_target_indices_dim_'' 0 False target of
                  Inl e \<Rightarrow> (if is_value_error e then Inl (ReshapeTargetIndices target e) else Inl e)
                | Inr concrete_target_for_op_list \<Rightarrow>
                    (let (shape_const, st2) =
                           get_constant_name s (VectorArray concrete_target_for_op_list) st1;
                         st3 = emit ''Reshape'' [indices_name, shape_const]
                                 [reshaped_indices_name] [] st2;
                         st4 = manually_ensure_shape_env_entry s reshaped_indices_name target
                                 Int64 st3
                     in Inr (reshaped_indices_name, st4)))
          else
            Inr (indices_name,
                 manually_ensure_shape_env_entry s indices_name target Int64 st))"

text \<open>
  The expected updates shape of the default path: the leading dimensions of the
  processed indices shape, then the operand dimensions from position \<open>K\<close> on.
\<close>

definition expected_updates_shape_default :: "sshape \<Rightarrow> sshape \<Rightarrow> scatter_error + sshape" where
  "expected_updates_shape_default processed operand_shape =
     (let onnx_updates_N_dim_list_default = butlast processed;
          onnx_indices_K_depth_val_default = (if processed \<noteq> [] then last processed else PyInt 0)
      in case onnx_indices_K_depth_val_default of
           PyInt kv \<Rightarrow>
             if kv < 0 then Inl (NegativeIndexDepth kv)
             else if kv \<le> int (length operand_shape) then
               Inr (onnx_updates_N_dim_list_default @ drop (nat kv) operand_shape)
             else Inl (IndexDepthExceedsRank kv (length operand_shape))
         | d \<Rightarrow> Inl (IndexDepthNotConcrete d))"

text \<open>
  Detection of the batched-window pattern. First the comparison of operand and updates
  away from the scattered axis, then the whole test.
\<close>

definition shapes_match_for_depth2_pattern ::
  "conv_methods \<Rightarrow> nat \<Rightarrow> sshape \<Rightarrow> sshape \<Rightarrow> scatter_error + bool" where
  "shapes_match_for_depth2_pattern s scatter_target_op_axis operand_shape updates_shape =
     (let op_rank = length operand_shape in
      if scatter_target_op_axis > 0 then
        bind_result (are_dims_equal s (operand_shape ! 0) (updates_shape ! 0))
          (\<lambda>first_equal.
             if \<not> first_equal then Inr False
             else if op_rank > scatter_target_op_axis + 1 then
               (if scatter_target_op_axis < length updates_shape then
                  are_shapes_equal s (drop (scatter_target_op_axis + 1) operand_shape)
                    (drop (scatter_target_op_axis + 1) updates_shape)
                else Inr False)
             else Inr True)
      else if op_rank > 1 then are_shapes_equal s (drop 1 operand_shape) (drop 1 updates_shape)
      else if op_rank \<noteq> 1 then Inr False
      else Inr True)"

definition detect_batched_window ::
  "conv_methods \<Rightarrow> dimension_numbers \<Rightarrow> sshape \<Rightarrow> sshape \<Rightarrow> sshape \<Rightarrow> scatter_error + bool" where
  "detect_batched_window s dn operand_shape jax_indices_shape updates_shape =
     (let sdod = scatter_dims_to_operand_dims dn;
          uwd = update_window_dims dn;
          iwd = inserted_window_dims dn;
          obd = operand_batching_dims dn;
          op_rank = length operand_shape;
          upd_rank = length updates_shape
      in if length sdod = 1 \<and> length uwd = upd_rank \<and> op_rank = upd_rank \<and> obd = [] \<and> iwd = [] then
           bind_result
             (if jax_indices_shape = [] then Inr True
              else are_shapes_equal s jax_indices_shape [PyInt 1])
             (\<lambda>trivial_indices.
                if \<not> trivial_indices then Inr False
                else
                  (let scatter_target_op_axis = sdod ! 0 in
                   if scatter_target_op_axis < op_rank then
                     bind_result
                       (shapes_match_for_depth2_pattern s scatter_target_op_axis
                          operand_shape updates_shape)
                       (\<lambda>shapes_match.
                          Inr (shapes_match \<and> op_rank > 0
                               \<and> scatter_target_op_axis < length updates_shape))
                   else Inr False))
         else Inr False)"

text \<open>Everything up to the choice between the two paths, collected in a record.\<close>

record front =
  final_operand_name :: string
  operand_shape_symbolic :: sshape
  jax_indices_shape_symbolic :: sshape
  current_indices_name :: string
  processed_indices_shape :: sshape
  final_indices_name :: string
  original_updates_name :: string
  original_updates_shape_symbolic :: sshape
  original_updates_dtype :: np_kind
  current_expected_onnx_updates_shape :: sshape
  use_depth2_for_batched_window_scatter :: bool

definition prepare_front ::
  "conv_methods \<Rightarrow> traced_var \<Rightarrow> traced_var \<Rightarrow> traced_var \<Rightarrow> dimension_numbers \<Rightarrow>
   conv_state \<Rightarrow> scatter_error + front \<times> conv_state" where
  "prepare_front s operand_v indices_v updates_v dn st =
     bind_result (to_symbolic_tuple s (aval_shape operand_v))
      (\<lambda>operand_shape.
        let st1 = manually_ensure_shape_env_entry s (var_name operand_v) operand_shape
                    (aval_dtype operand_v) st
        in bind_result (to_symbolic_tuple s (aval_shape indices_v))
      (\<lambda>jax_indices_shape.
        let st2 = manually_ensure_shape_env_entry s (var_name indices_v) jax_indices_shape
                    (aval_dtype indices_v) st1;
            (indices_name, st3) = cast_indices s (var_name indices_v) jax_indices_shape
                                    (aval_dtype indices_v) st2;
            index_depth_k = length (scatter_dims_to_operand_dims dn)
        in bind_result (infer_target_indices_shape s jax_indices_shape index_depth_k)
      (\<lambda>target.
        bind_result (reshape_indices s indices_name jax_indices_shape target st3)
      (\<lambda>(indices_name_to_return, st4).
        bind_result (to_symbolic_tuple s (aval_shape updates_v))
      (\<lambda>updates_shape.
        let st5 = manually_ensure_shape_env_entry s (var_name updates_v) updates_shape
                    (aval_dtype updates_v) st4
        in bind_result (expected_updates_shape_default target operand_shape)
      (\<lambda>expected.
        bind_result (detect_batched_window s dn operand_shape jax_indices_shape updates_shape)
      (\<lambda>use_depth2.
        Inr (\<lparr> final_operand_name = var_name operand_v,
                operand_shape_symbolic = operand_shape,
                jax_indices_shape_symbolic = jax_indices_shape,
                current_indices_name = indices_name,
                processed_indices_shape = target,
                final_indices_name = indices_name_to_return,
                original_updates_name = var_name updates_v,
                original_updates_shape_symbolic = updates_shape,
                original_updates_dtype = aval_dtype updates_v,
                current_expected_onnx_updates_shape = expected,
                use_depth2_for_batched_window_scatter = use_depth2 \<rparr>, st5))))))))"

text \<open>Tuple indexing with a non-negative index.\<close>

definition py_index :: "'a list \<Rightarrow> nat \<Rightarrow> scatter_error + 'a" where
  "py_index xs i = (if i < length xs then Inr (xs ! i) else Inl IndexOutOfRange)"

text \<open>
  The batched-window path builds the \<open>(B, L, 2)\<close> index tensor node by node. The
  statements are in source order, and within a statement the names are requested in the
  order Python evaluates the arguments. The result is the name of the index tensor.
\<close>

definition depth2_indices_nodes ::
  "conv_methods \<Rightarrow> string \<Rightarrow> int \<Rightarrow> int \<Rightarrow> conv_state \<Rightarrow> string \<times> conv_state" where
  "depth2_indices_nodes s indices_name B_val L_val st =
     (let (col_start_scalar_name, a1) =
           get_unique_name s (indices_name @ ''_scalar_d2'') st;
         (axes0, a2) = get_constant_name s (VectorArray [0]) a1;
         a3 = emit ''Squeeze'' [indices_name, axes0] [col_start_scalar_name] [] a2;
         a4 = manually_ensure_shape_env_entry s col_start_scalar_name [] Int64 a3;
         (arange_b_end_name, b1) = get_constant_name s (ScalarArray B_val) a4;
         (arange_b_name, b2) = get_unique_name s ''arange_b_d2'' b1;
         (zero_b, b3) = get_constant_name s (ScalarArray 0) b2;
         (one_b, b4) = get_constant_name s (ScalarArray 1) b3;
         b5 = emit ''Range'' [zero_b, arange_b_end_name, one_b] [arange_b_name] [] b4;
         b6 = manually_ensure_shape_env_entry s arange_b_name [PyInt B_val] Int64 b5;
         (unsqueeze_b_name, c1) = get_unique_name s ''unsqueeze_b_d2'' b6;
         (axes1, c2) = get_constant_name s (VectorArray [1]) c1;
         c3 = emit ''Unsqueeze'' [arange_b_name, axes1] [unsqueeze_b_name] [] c2;
         c4 = manually_ensure_shape_env_entry s unsqueeze_b_name [PyInt B_val, PyInt 1] Int64 c3;
         (batch_indices_intermediate_name, d1) = get_unique_name s ''batch_indices_BL_d2'' c4;
         (shape_bl, d2) = get_constant_name s (VectorArray [B_val, L_val]) d1;
         d3 = emit ''Expand'' [unsqueeze_b_name, shape_bl] [batch_indices_intermediate_name] [] d2;
         d4 = manually_ensure_shape_env_entry s batch_indices_intermediate_name
                [PyInt B_val, PyInt L_val] Int64 d3;
         (arange_l_end_name, e1) = get_constant_name s (ScalarArray L_val) d4;
         (arange_l_name, e2) = get_unique_name s ''arange_l_d2'' e1;
         (zero_l, e3) = get_constant_name s (ScalarArray 0) e2;
         (one_l, e4) = get_constant_name s (ScalarArray 1) e3;
         e5 = emit ''Range'' [zero_l, arange_l_end_name, one_l] [arange_l_name] [] e4;
         e6 = manually_ensure_shape_env_entry s arange_l_name [PyInt L_val] Int64 e5;
         (add_start_name, g1) = get_unique_name s ''add_start_col_d2'' e6;
         g2 = emit ''Add'' [arange_l_name, col_start_scalar_name] [add_start_name] [] g1;
         g3 = manually_ensure_shape_env_entry s add_start_name [PyInt L_val] Int64 g2;
         (unsqueeze_l_name, h1) = get_unique_name s ''unsqueeze_l_d2'' g3;
         (axes0', h2) = get_constant_name s (VectorArray [0]) h1;
         h3 = emit ''Unsqueeze'' [add_start_name, axes0'] [unsqueeze_l_name] [] h2;
         h4 = manually_ensure_shape_env_entry s unsqueeze_l_name [PyInt 1, PyInt L_val] Int64 h3;
         (col_indices_intermediate_name, i1) = get_unique_name s ''col_indices_BL_d2'' h4;
         (shape_bl', i2) = get_constant_name s (VectorArray [B_val, L_val]) i1;
         i3 = emit ''Expand'' [unsqueeze_l_name, shape_bl'] [col_indices_intermediate_name] [] i2;
         i4 = manually_ensure_shape_env_entry s col_indices_intermediate_name
                [PyInt B_val, PyInt L_val] Int64 i3;
         (final_batch_indices_name, j1) = get_unique_name s ''final_batch_indices_d2'' i4;
         (axes2, j2) = get_constant_name s (VectorArray [2]) j1;
         j3 = emit ''Unsqueeze'' [batch_indices_intermediate_name, axes2]
                [final_batch_indices_name] [] j2;
         j4 = manually_ensure_shape_env_entry s final_batch_indices_name
                [PyInt B_val, PyInt L_val, PyInt 1] Int64 j3;
         (final_col_indices_name, k1) = get_unique_name s ''final_col_indices_d2'' j4;
         (axes2', k2) = get_constant_name s (VectorArray [2]) k1;
         k3 = emit ''Unsqueeze'' [col_indices_intermediate_name, axes2']
                [final_col_indices_name] [] k2;
         k4 = manually_ensure_shape_env_entry s final_col_indices_name
                [PyInt B_val, PyInt L_val, PyInt 1] Int64 k3;
         (indices_2d_name, l1) = get_unique_name s ''indices_2d_BL2_d2'' k4;
         l2 = emit ''Concat'' [final_batch_indices_name, final_col_indices_name]
                [indices_2d_name] [AttrInt ''axis'' 2] l1
      in (indices_2d_name, l2))"

text \<open>
  The batched-window path as a whole. Operand and updates shapes are made concrete
  first, outside any \<open>try\<close>; then the nodes are emitted and the three names returned.
\<close>

definition batched_window_path ::
  "conv_methods \<Rightarrow> front \<Rightarrow> dimension_numbers \<Rightarrow> conv_state \<Rightarrow>
   scatter_error + (string \<times> string \<times> string) \<times> conv_state" where
  "batched_window_path s f dn st =
     bind_result (py_index (scatter_dims_to_operand_dims dn) 0)
      (\<lambda>scatter_op_axis_idx.
     bind_result (make_shape_concrete_for_prod (operand_shape_symbolic f) s ''d2_op_shape'')
      (\<lambda>concrete_operand_shape_d2.
     bind_result (make_shape_concrete_for_prod (original_updates_shape_symbolic f) s ''d2_upd_shape'')
      (\<lambda>concrete_updates_shape_d2.
     bind_result (py_index concrete_operand_shape_d2 0)
      (\<lambda>B_val.
     bind_result (py_index concrete_updates_shape_d2 scatter_op_axis_idx)
      (\<lambda>L_val.
        let (indices_2d_name, l2) =
              depth2_indices_nodes s (current_indices_name f) B_val L_val st
        in bind_result (py_index (operand_shape_symbolic f) 0)
      (\<lambda>operand_dim0.
     bind_result (py_index (original_updates_shape_symbolic f) scatter_op_axis_idx)
      (\<lambda>updates_window_dim.
        let l3 = manually_ensure_shape_env_entry s indices_2d_name
                   [operand_dim0, updates_window_dim, PyInt 2] Int64 l2
        in Inr ((final_operand_name f, indices_2d_name, original_updates_name f), l3))))))))"

text \<open>
  The default path. The element count of a concrete shape: \<open>1\<close> for the empty shape,
  otherwise the product, and \<open>0\<close> as soon as some dimension is \<open>0\<close>.
\<close>

definition element_count :: "int list \<Rightarrow> int" where
  "element_count c =
     (let nelem = (if c \<noteq> [] then np_prod c else 1)
      in if list_ex (\<lambda>d. d = 0) c then 0 else nelem)"

text \<open>
  \<open>original_updates_shape_symbolic[i] == 1\<close>: true of the integer one; an object is
  taken to compare unequal to \<open>1\<close>.
\<close>

fun py_eq_one :: "sdim \<Rightarrow> bool" where
  "py_eq_one (PyInt v) = (v = 1)"
| "py_eq_one (NpInt v) = (v = 1)"
| "py_eq_one (Obj _ _ _) = False"

text \<open>The search for an axis of size one whose removal gives the expected shape.\<close>

fun find_squeeze_axis ::
  "conv_methods \<Rightarrow> sshape \<Rightarrow> sshape \<Rightarrow> nat list \<Rightarrow> scatter_error + nat option" where
  "find_squeeze_axis s original expected [] = Inr None"
| "find_squeeze_axis s original expected (i # rest) =
     (if py_eq_one (original ! i) then
        bind_result (are_shapes_equal s (take i original @ drop (Suc i) original) expected)
          (\<lambda>matches. if matches then Inr (Some i)
                     else find_squeeze_axis s original expected rest)
      else find_squeeze_axis s original expected rest)"

text \<open>
  The body of the \<open>try\<close>: both shapes are made concrete, the counts compared, and a
  Squeeze or a Reshape emitted, or nothing when both counts are zero.
\<close>

definition reconcile_updates_body ::
  "conv_methods \<Rightarrow> front \<Rightarrow> dimension_numbers \<Rightarrow> conv_state \<Rightarrow>
   scatter_error + string \<times> conv_state" where
  "reconcile_updates_body s f dn st =
     (let original = original_updates_shape_symbolic f;
          expected = current_expected_onnx_updates_shape f;
          name = original_updates_name f;
          dt = original_updates_dtype f
      in
     bind_result (make_shape_concrete_for_prod original s ''orig_updates_nelem_default'')
      (\<lambda>concrete_orig_upd_shape.
     bind_result (make_shape_concrete_for_prod expected s ''exp_updates_nelem_default'')
      (\<lambda>concrete_exp_upd_shape.
        let original_nelem = element_count concrete_orig_upd_shape;
            expected_nelem = element_count concrete_exp_upd_shape
        in if original_nelem = 0 \<and> expected_nelem = 0 then
             Inr (name, manually_ensure_shape_env_entry s name expected dt st)
           else if original_nelem = expected_nelem then
             bind_result
               (if length original = length expected + 1
                then find_squeeze_axis s original expected [0..<length original]
                else Inr None)
               (\<lambda>squeeze.
                  case squeeze of
                    Some squeeze_axis \<Rightarrow>
                      (let (squeezed_updates_name, st1) =
                             get_unique_name s (name @ ''_squeezed_default'') st;
                           (axes, st2) =
                             get_constant_name s (VectorArray [int squeeze_axis]) st1;
                           st3 = emit ''Squeeze'' [name, axes] [squeezed_updates_name] [] st2;
                           st4 = manually_ensure_shape_env_entry s squeezed_updates_name
                                   expected dt st3
                       in Inr (squeezed_updates_name, st4))
                  | None \<Rightarrow>
                      (let (reshaped_updates_name, st1) =
                             get_unique_name s (name @ ''_reshaped_default'') st
                       in bind_result
                            (reshape_target_list s ''reshape_target_updates_dim_def_'' 0 False
                               expected)
                            (\<lambda>concrete_target_for_op_list_upd.
                               let (shape_const, st2) =
                                     get_constant_name s
                                       (VectorArray concrete_target_for_op_list_upd) st1;
                                   st3 = emit ''Reshape'' [name, shape_const]
                                           [reshaped_updates_name] [] st2;
                                   st4 = manually_ensure_shape_env_entry s reshaped_updates_name
                                           expected dt st3
                               in Inr (reshaped_updates_name, st4))))
           else
             Inl (ElementCountMismatch original original_nelem expected expected_nelem
                    (final_operand_name f) (operand_shape_symbolic f)
                    (final_indices_name f) (processed_indices_shape f) dn))))"

text \<open>
  The \<open>except ValueError\<close> clause of the default path. A message that holds
  \<open>Updates element count mismatch\<close> or \<open>Cannot make shape concrete\<close> is raised again as
  it is; the second phrase is in the message of \<open>_make_shape_concrete_for_prod\<close> only
  when its context is the word \<open>shape\<close> (the printed forms of dimensions are taken not
  to hold either phrase). Any other \<open>ValueError\<close> is wrapped; other exceptions pass.
\<close>

definition reconcile_updates_handler ::
  "front \<Rightarrow> dimension_numbers \<Rightarrow> scatter_error \<Rightarrow> scatter_error" where
  "reconcile_updates_handler f dn ve =
     (if \<not> is_value_error ve then ve
      else
        (case ve of
           ElementCountMismatch _ _ _ _ _ _ _ _ _ \<Rightarrow> ve
         | CannotMakeConcrete ctx _ _ _ \<Rightarrow>
             (if ctx = ''shape'' then ve
              else CouldNotPrepareUpdates ve (final_operand_name f) (operand_shape_symbolic f)
                     (final_indices_name f) (processed_indices_shape f) dn)
         | _ \<Rightarrow>
             CouldNotPrepareUpdates ve (final_operand_name f) (operand_shape_symbolic f)
               (final_indices_name f) (processed_indices_shape f) dn))"

definition reconcile_updates_default ::
  "conv_methods \<Rightarrow> front \<Rightarrow> dimension_numbers \<Rightarrow> conv_state \<Rightarrow>
   scatter_error + string \<times> conv_state" where
  "reconcile_updates_default s f dn st =
     bind_result
       (are_shapes_equal s (original_updates_shape_symbolic f)
          (current_expected_onnx_updates_shape f))
       (\<lambda>same.
          if \<not> same then
            (case reconcile_updates_body s f dn st of
               Inl ve \<Rightarrow> Inl (reconcile_updates_handler f dn ve)
             | Inr r \<Rightarrow> Inr r)
          else
            Inr (original_updates_name f,
                 manually_ensure_shape_env_entry s (original_updates_name f)
                   (current_expected_onnx_updates_shape f) (original_updates_dtype f) st))"

text \<open>\<open>_prepare_scatter_inputs_for_onnx(s, operand_v, indices_v, updates_v, dimension_numbers)\<close>.\<close>

definition prepare_scatter_inputs_for_onnx ::
  "conv_methods \<Rightarrow> traced_var \<Rightarrow> traced_var \<Rightarrow> traced_var \<Rightarrow> dimension_numbers \<Rightarrow>
   conv_state \<Rightarrow> scatter_error + (string \<times> string \<times> string) \<times> conv_state" where
  "prepare_scatter_inputs_for_onnx s operand_v indices_v updates_v dn st =
     bind_result (prepare_front s operand_v indices_v updates_v dn st)
       (\<lambda>(f, st1).
          if use_depth2_for_batched_window_scatter f then batched_window_path s f dn st1
          else
            bind_result (reconcile_updates_default s f dn st1)
              (\<lambda>(updates_name, st2).
                 Inr ((final_operand_name f, final_indices_name f, updates_name), st2)))"

section \<open>Example states and inputs\<close>

subsection \<open>Example builder states\<close>

definition fresh_builder :: builder where
  "fresh_builder = init_builder 21 ''model'' None None"

definition builder_with_input_x :: builder where
  "builder_with_input_x = add_input ''x'' (Some [IntDim 2]) (NpScalarType Float32) fresh_builder"

definition builder_relu :: builder where
  "builder_relu =
     add_output ''y'' (Some [IntDim 2]) (NpScalarType Float32)
       (add_node (Node ''n1'' ''Neg'' [''h''] [''y''] [])
          (add_value_info ''h'' (Some [IntDim 2]) (NpScalarType Float32)
             (add_node (Node ''n0'' ''Relu'' [''x''] [''h''] []) builder_with_input_x)))"

definition builder_unsorted :: builder where
  "builder_unsorted =
     add_node (Node ''n1'' ''Relu'' [''x''] [''h''] [])
       (add_node (Node ''n0'' ''Neg'' [''h''] [''y''] []) builder_with_input_x)"

definition builder_conv_transpose :: builder where
  "builder_conv_transpose =
     add_node (Node ''n0'' ''ConvTranspose'' [''x''] [''conv_transpose_out_0''] [])
       builder_with_input_x"

definition builder_missing :: builder where
  "builder_missing = add_node (Node ''n0'' ''Relu'' [''x''] [''h''] []) builder_with_input_x"

subsection \<open>Example inputs of the legalizer\<close>

definition plain_converter :: conv_methods where
  "plain_converter =
     \<lparr> is_symbolic_dim = None, get_concrete_value_from_symbolic_dim = None,
       dim_to_symbol_safe = None,
       unique_name_for = (\<lambda>base n. base @ ''_'' @ string_of_nat n),
       constant_name_for = (\<lambda>n. ''const_'' @ string_of_nat n) \<rparr>"

definition empty_conv_state :: conv_state where
  "empty_conv_state =
     \<lparr> emitted_nodes = [], shape_env = Map.empty, shape_info = [], constants = [],
       names_issued = 0 \<rparr>"

definition symbolic_B :: sdim where
  "symbolic_B = Obj 0 None IntTypeError"

text \<open>Operand (B, 6), one start index of shape (1,), updates (B, 6), scattered axis 1.\<close>

definition window_dnums :: dimension_numbers where
  "window_dnums = \<lparr> update_window_dims = [0, 1], inserted_window_dims = [],
                     scatter_dims_to_operand_dims = [1], operand_batching_dims = [] \<rparr>"

definition window_operand :: traced_var where
  "window_operand = \<lparr> var_name = ''operand'', aval_shape = [symbolic_B, PyInt 6], aval_dtype = Float32 \<rparr>"

definition window_indices :: traced_var where
  "window_indices = \<lparr> var_name = ''indices'', aval_shape = [PyInt 1], aval_dtype = Int64 \<rparr>"

definition window_updates :: traced_var where
  "window_updates = \<lparr> var_name = ''updates'', aval_shape = [symbolic_B, PyInt 6], aval_dtype = Float32 \<rparr>"

definition window_operand_concrete :: traced_var where
  "window_operand_concrete = \<lparr> var_name = ''operand'', aval_shape = [PyInt 4, PyInt 6], aval_dtype = Float32 \<rparr>"

definition window_updates_concrete :: traced_var where
  "window_updates_concrete = \<lparr> var_name = ''updates'', aval_shape = [PyInt 4, PyInt 6], aval_dtype = Float32 \<rparr>"

text \<open>Operand (5, 0), one index vector of shape (1,), updates (0,), scattered axis 0.\<close>

definition row_dnums :: dimension_numbers where
  "row_dnums = \<lparr> update_window_dims = [0], inserted_window_dims = [0],
                  scatter_dims_to_operand_dims = [0], operand_batching_dims = [] \<rparr>"

definition empty_row_operand :: traced_var where
  "empty_row_operand = \<lparr> var_name = ''operand'', aval_shape = [PyInt 5, PyInt 0], aval_dtype = Float32 \<rparr>"

definition row_indices :: traced_var where
  "row_indices = \<lparr> var_name = ''indices'', aval_shape = [PyInt 1], aval_dtype = Int64 \<rparr>"

definition empty_row_updates :: traced_var where
  "empty_row_updates = \<lparr> var_name = ''updates'', aval_shape = [PyInt 0], aval_dtype = Float32 \<rparr>"

text \<open>Operand (5, 3), updates (3,) and updates (4,).\<close>

definition row_operand :: traced_var where
  "row_operand = \<lparr> var_name = ''operand'', aval_shape = [PyInt 5, PyInt 3], aval_dtype = Float32 \<rparr>"

definition row_updates :: traced_var where
  "row_updates = \<lparr> var_name = ''updates'', aval_shape = [PyInt 3], aval_dtype = Float32 \<rparr>"

definition row_updates_short :: traced_var where
  "row_updates_short = \<lparr> var_name = ''updates'', aval_shape = [PyInt 4], aval_dtype = Float32 \<rparr>"

text \<open>
  A converter that rates every object as not symbolic and resolves it to 3; operand
  (5, X) and updates (1, 1, X), where \<open>int(X)\<close> raises a \<open>TypeError\<close>.
\<close>

definition unconvertible_X :: sdim where
  "unconvertible_X = Obj 1 None IntTypeError"

definition lenient_converter :: conv_methods where
  "lenient_converter =
     \<lparr> is_symbolic_dim = Some (\<lambda>d. Some False),
       get_concrete_value_from_symbolic_dim = Some (\<lambda>d. Some 3),
       dim_to_symbol_safe = None,
       unique_name_for = (\<lambda>base n. base @ ''_'' @ string_of_nat n),
       constant_name_for = (\<lambda>n. ''const_'' @ string_of_nat n) \<rparr>"

definition wide_operand :: traced_var where
  "wide_operand = \<lparr> var_name = ''operand'', aval_shape = [PyInt 5, unconvertible_X], aval_dtype = Float32 \<rparr>"

definition padded_updates :: traced_var where
  "padded_updates = \<lparr> var_name = ''updates'', aval_shape = [PyInt 1, PyInt 1, unconvertible_X], aval_dtype = Float32 \<rparr>"

section \<open>Properties of the graph builder\<close>

subsection \<open>Frame lemmas\<close>

lemma register_symbol_origin_frame:
  "nodes (register_symbol_origin d t a b) = nodes b"
  "inputs (register_symbol_origin d t a b) = inputs b"
  "outputs (register_symbol_origin d t a b) = outputs b"
  "value_info (register_symbol_origin d t a b) = value_info b"
  "initializers (register_symbol_origin d t a b) = initializers b"
  "value_info_metadata (register_symbol_origin d t a b) = value_info_metadata b"
  by (simp_all add: register_symbol_origin_def Let_def split: option.splits)

lemma register_symbol_origins_frame:
  "nodes (register_symbol_origins t a s b) = nodes b
   \<and> inputs (register_symbol_origins t a s b) = inputs b
   \<and> outputs (register_symbol_origins t a s b) = outputs b
   \<and> value_info (register_symbol_origins t a s b) = value_info b
   \<and> initializers (register_symbol_origins t a s b) = initializers b
   \<and> value_info_metadata (register_symbol_origins t a s b) = value_info_metadata b"
  by (induction s arbitrary: a b) (simp_all add: register_symbol_origin_frame split: dim.splits)

lemma register_symbol_origins_no_converter:
  "converter b = None \<Longrightarrow> register_symbol_origins t a s b = b"
  by (induction s arbitrary: a) (simp_all add: register_symbol_origin_def split: dim.splits)

lemma add_value_info_frame:
  "nodes (add_value_info n s d b) = nodes b"
  "inputs (add_value_info n s d b) = inputs b"
  "outputs (add_value_info n s d b) = outputs b"
  "initializers (add_value_info n s d b) = initializers b"
  by (simp_all add: add_value_info_def Let_def register_symbol_origins_frame
      register_value_info_metadata_def)

lemma add_value_info_registers:
  "value_info_metadata (add_value_info n s d b) n \<noteq> None"
  "n \<in> set (map vi_name (value_info (add_value_info n s d b)))"
  by (simp_all add: add_value_info_def Let_def register_symbol_origins_frame
      register_value_info_metadata_def make_value_info_def split: option.splits)

lemma add_input_nodes: "nodes (add_input n s d b) = nodes b"
  by (simp add: add_input_def Let_def add_value_info_frame register_symbol_origins_frame
      split: option.splits)

lemma add_input_outputs: "outputs (add_input n s d b) = outputs b"
  by (simp add: add_input_def Let_def add_value_info_frame register_symbol_origins_frame
      split: option.splits)

lemma add_output_inputs: "inputs (add_output n s d b) = inputs b"
  by (simp add: add_output_def Let_def register_symbol_origins_frame split: option.splits)

lemma add_output_nodes: "nodes (add_output n s d b) = nodes b"
  by (simp add: add_output_def Let_def register_symbol_origins_frame split: option.splits)

lemma list_ex_vi_name: "list_ex (\<lambda>vi. vi_name vi = n) xs \<longleftrightarrow> n \<in> set (map vi_name xs)"
  by (auto simp: list_ex_iff)

lemma add_input_inputs:
  "inputs (add_input n s d b) =
     (if list_ex (\<lambda>nd. n \<in> set (node_output nd)) (nodes b) \<or> n \<in> set (map vi_name (inputs b))
      then inputs b
      else inputs b @ [make_value_info (b\<lparr>dtype_env := (dtype_env b)(n \<mapsto> d)\<rparr>) n (Some (as_tuple s)) d])"
  by (simp add: add_input_def Let_def add_value_info_frame register_symbol_origins_frame
      list_ex_vi_name add_tensor_entry_def split: option.splits)

lemma add_output_outputs:
  "outputs (add_output n s d b) =
     (if n \<in> set (map vi_name (outputs b)) then outputs b
      else outputs b @ [make_value_info (b\<lparr>dtype_env := (dtype_env b)(n \<mapsto> d)\<rparr>) n (Some (as_tuple s)) d])"
  by (simp add: add_output_def Let_def register_symbol_origins_frame
      list_ex_vi_name add_tensor_entry_def split: option.splits)

lemma make_value_info_name: "vi_name (make_value_info b n s d) = n"
  by (simp add: make_value_info_def)

lemma add_input_distinct:
  "distinct (map vi_name (inputs b)) \<Longrightarrow> distinct (map vi_name (inputs (add_input n s d b)))"
  by (simp add: add_input_inputs make_value_info_name)

lemma add_output_distinct:
  "distinct (map vi_name (outputs b)) \<Longrightarrow> distinct (map vi_name (outputs (add_output n s d b)))"
  by (simp add: add_output_outputs make_value_info_name)

lemma run_declarations_distinct:
  "distinct (map vi_name (inputs b)) \<Longrightarrow> distinct (map vi_name (outputs b)) \<Longrightarrow>
   distinct (map vi_name (inputs (run_declarations cs b)))
   \<and> distinct (map vi_name (outputs (run_declarations cs b)))"
proof (induction cs arbitrary: b)
  case Nil
  then show ?case by simp
next
  case (Cons c cs)
  show ?case
  proof (cases c)
    case (DeclareInput n s d)
    with Cons.prems Cons.IH [of "add_input n s d b"] show ?thesis
      by (simp add: add_input_distinct add_input_outputs)
  next
    case (DeclareOutput n s d)
    with Cons.prems Cons.IH [of "add_output n s d b"] show ?thesis
      by (simp add: add_output_distinct add_output_inputs)
  qed
qed

lemma add_input_twice_inputs:
  "inputs (add_input n s2 d2 (add_input n s1 d1 b)) = inputs (add_input n s1 d1 b)"
  by (simp add: add_input_inputs [of n s2 d2] add_input_nodes)
     (simp add: add_input_inputs make_value_info_name)

lemma add_input_twice:
  assumes "\<not> list_ex (\<lambda>nd. name \<in> set (node_output nd)) (nodes b)"
  shows "add_input name s2 d2 (add_input name s1 d1 b) = add_input name s1 d1 b"
proof -
  have "name \<in> set (map vi_name (inputs (add_input name s1 d1 b)))"
    using assms by (simp add: add_input_inputs make_value_info_name)
  then show ?thesis
    using assms by (simp add: add_input_def [of name s2 d2] add_input_nodes list_ex_vi_name)
qed

lemma add_output_twice:
  "add_output n s2 d2 (add_output n s1 d1 b) = add_output n s1 d1 b"
proof -
  have "n \<in> set (map vi_name (outputs (add_output n s1 d1 b)))"
    by (simp add: add_output_outputs make_value_info_name)
  then show ?thesis
    by (simp add: add_output_def [of n s2 d2] list_ex_vi_name)
qed

lemmas example_defs =
  fresh_builder_def builder_with_input_x_def builder_relu_def builder_unsorted_def
  builder_conv_transpose_def builder_missing_def

lemmas eval_defs =
  build_graph_def add_node_def add_input_def add_output_def add_value_info_def init_builder_def
  filter_unused_initializers_def assert_topologically_sorted_def filter_redundant_inputs_def
  find_missing_value_info_def known_names_def add_tensor_entry_def make_value_info_def
  as_tuple_def dim_proto_def elem_type_of_def Let_def is_deterministic_name_def suffix_to_prefix
  register_value_info_metadata_def add_scalar_input_def

subsection \<open>The topological check\<close>

lemma first_unavailable_None_iff:
  "first_unavailable avail xs = None \<longleftrightarrow> (\<forall>x\<in>set xs. x \<noteq> [] \<longrightarrow> x \<in> avail)"
  by (induction xs) auto

lemma walk_nodes_error_form:
  "walk_nodes avail ns = Inl e \<Longrightarrow> \<exists>nm op x. e = NotTopologicallySorted nm op x"
  by (induction ns arbitrary: avail) (auto split: option.splits)

lemma walk_nodes_Inr_iff:
  "walk_nodes avail ns = Inr () \<longleftrightarrow>
     (\<forall>i<length ns. \<forall>x\<in>set (node_input (ns ! i)).
        x \<noteq> [] \<longrightarrow> x \<in> avail \<union> \<Union> (set ` node_output ` set (take i ns)))"
proof (induction ns arbitrary: avail)
  case Nil
  show ?case by simp
next
  case (Cons n ns)
  show ?case
  proof (cases "first_unavailable avail (node_input n)")
    case None
    then have head_ok: "\<forall>x\<in>set (node_input n). x \<noteq> [] \<longrightarrow> x \<in> avail"
      by (simp add: first_unavailable_None_iff)
    have "walk_nodes avail (n # ns) = walk_nodes (avail \<union> set (node_output n)) ns"
      using None by simp
    also have "\<dots> = Inr () \<longleftrightarrow>
        (\<forall>i<length ns. \<forall>x\<in>set (node_input (ns ! i)).
           x \<noteq> [] \<longrightarrow> x \<in> (avail \<union> set (node_output n)) \<union> \<Union> (set ` node_output ` set (take i ns)))"
      by (rule Cons.IH)
    finally show ?thesis
      using head_ok by (simp add: All_less_Suc2 Un_assoc)
  next
    case (Some inp)
    then have "\<not> (\<forall>x\<in>set (node_input n). x \<noteq> [] \<longrightarrow> x \<in> avail)"
      using first_unavailable_None_iff [of avail "node_input n"] by simp
    then show ?thesis
      using Some by (auto simp: All_less_Suc2)
  qed
qed

lemma filter_unused_initializers_frame:
  "nodes (filter_unused_initializers b) = nodes b"
  "inputs (filter_unused_initializers b) = inputs b"
  "outputs (filter_unused_initializers b) = outputs b"
  "value_info (filter_unused_initializers b) = value_info b"
  "model_name (filter_unused_initializers b) = model_name b"
  by (simp_all add: filter_unused_initializers_def Let_def)

lemma used_initializer_kept:
  assumes "i < length (nodes b)" "x \<in> set (node_input (nodes b ! i))"
  shows "x \<in> set (map t_name (initializers (filter_unused_initializers b)))
         \<longleftrightarrow> x \<in> set (map t_name (initializers b))"
proof -
  have "x \<in> set (concat (map node_input (nodes b)))"
    using assms by (auto intro: nth_mem)
  then show ?thesis
    by (auto simp: filter_unused_initializers_def Let_def)
qed

lemma assert_topologically_sorted_iff:
  "assert_topologically_sorted (filter_unused_initializers b) = Inr () \<longleftrightarrow>
     (\<forall>i<length (nodes b). \<forall>x\<in>set (node_input (nodes b ! i)).
        x \<noteq> [] \<longrightarrow>
        x \<in> set (map vi_name (inputs b)) \<union> set (map t_name (initializers b))
              \<union> \<Union> (set ` node_output ` set (take i (nodes b))))"
proof -
  define A where "A = (\<lambda>i. set (map vi_name (inputs b)) \<union> set (map t_name (initializers b))
              \<union> \<Union> (set ` node_output ` set (take i (nodes b))))"
  define A' where "A' = (\<lambda>i. set (map vi_name (inputs b))
              \<union> set (map t_name (initializers (filter_unused_initializers b)))
              \<union> \<Union> (set ` node_output ` set (take i (nodes b))))"
  have pointwise: "x \<in> A' i \<longleftrightarrow> x \<in> A i"
    if "i < length (nodes b)" "x \<in> set (node_input (nodes b ! i))" for i x
    using used_initializer_kept [OF that] by (simp add: A_def A'_def)
  have "assert_topologically_sorted (filter_unused_initializers b) = Inr () \<longleftrightarrow>
     (\<forall>i<length (nodes b). \<forall>x\<in>set (node_input (nodes b ! i)). x \<noteq> [] \<longrightarrow> x \<in> A' i)"
    unfolding assert_topologically_sorted_def walk_nodes_Inr_iff A'_def
    by (simp only: filter_unused_initializers_frame)
  also have "\<dots> \<longleftrightarrow>
     (\<forall>i<length (nodes b). \<forall>x\<in>set (node_input (nodes b ! i)). x \<noteq> [] \<longrightarrow> x \<in> A i)"
    using pointwise by metis
  finally show ?thesis
    unfolding A_def .
qed

lemma build_graph_Inr_sorted:
  "build_graph name is_subgraph empty_inputs b = Inr r \<Longrightarrow>
   assert_topologically_sorted (filter_unused_initializers b) = Inr ()"
  by (cases "assert_topologically_sorted (filter_unused_initializers b)")
     (simp_all add: build_graph_def Let_def)

lemma build_graph_unsorted:
  "assert_topologically_sorted (filter_unused_initializers b) \<noteq> Inr () \<Longrightarrow>
   \<exists>nm op x. build_graph name is_subgraph empty_inputs b = Inl (NotTopologicallySorted nm op x)"
proof -
  assume ne: "assert_topologically_sorted (filter_unused_initializers b) \<noteq> Inr ()"
  then obtain e where e: "assert_topologically_sorted (filter_unused_initializers b) = Inl e"
    by (cases "assert_topologically_sorted (filter_unused_initializers b)") auto
  then obtain nm op x where "e = NotTopologicallySorted nm op x"
    unfolding assert_topologically_sorted_def using walk_nodes_error_form by blast
  with e show ?thesis
    by (simp add: build_graph_def Let_def)
qed

lemma builder_relu_accepted:
  "\<exists>r. build_graph (Some ''g'') False False builder_relu = Inr r"
  by (simp add: example_defs eval_defs)

lemma builder_unsorted_nodes:
  "nodes builder_unsorted = [Node ''n0'' ''Neg'' [''h''] [''y''] [], Node ''n1'' ''Relu'' [''x''] [''h''] []]"
  "map vi_name (inputs builder_unsorted) = [''x'']"
  "initializers builder_unsorted = []"
  by (simp_all add: example_defs eval_defs)

lemma builder_relu_nodes:
  "nodes builder_relu = [Node ''n0'' ''Relu'' [''x''] [''h''] [], Node ''n1'' ''Neg'' [''h''] [''y''] []]"
  by (simp_all add: example_defs eval_defs add_value_info_frame)

subsection \<open>The missing-value-info check\<close>

lemma filter_redundant_inputs_frame:
  "nodes (filter_redundant_inputs b) = nodes b"
  "outputs (filter_redundant_inputs b) = outputs b"
  "value_info (filter_redundant_inputs b) = value_info b"
  "initializers (filter_redundant_inputs b) = initializers b"
  "model_name (filter_redundant_inputs b) = model_name b"
  "set (inputs (filter_redundant_inputs b)) \<subseteq> set (inputs b)"
  by (simp_all add: filter_redundant_inputs_def Let_def)

lemma filter_unused_initializers_subset:
  "set (initializers (filter_unused_initializers b)) \<subseteq> set (initializers b)"
  by (simp add: filter_unused_initializers_def Let_def)

lemma known_names_pruned:
  "known_names (if \<not> is_subgraph then filter_redundant_inputs (filter_unused_initializers b)
                else filter_unused_initializers b) \<subseteq> known_names b"
  using filter_redundant_inputs_frame(6) [of "filter_unused_initializers b"]
    filter_unused_initializers_subset [of b]
  by (auto simp: known_names_def filter_redundant_inputs_frame filter_unused_initializers_frame)

lemma pruned_nodes:
  "nodes (if \<not> is_subgraph then filter_redundant_inputs (filter_unused_initializers b)
          else filter_unused_initializers b) = nodes b"
  by (simp add: filter_redundant_inputs_frame filter_unused_initializers_frame)

lemma pruned_outputs_value_info:
  "outputs (if \<not> is_subgraph then filter_redundant_inputs (filter_unused_initializers b)
          else filter_unused_initializers b) = outputs b"
  "value_info (if \<not> is_subgraph then filter_redundant_inputs (filter_unused_initializers b)
          else filter_unused_initializers b) = value_info b"
  by (simp_all add: filter_redundant_inputs_frame filter_unused_initializers_frame)

lemma register_deterministic_parameters_remaining:
  "fst (register_deterministic_parameters ms b) = filter (\<lambda>m. \<not> is_deterministic_name m) ms"
  by (induction ms arbitrary: b) (simp_all add: case_prod_beta)

lemma find_missing_value_info_sorted:
  "sorted (find_missing_value_info b)" "distinct (find_missing_value_info b)"
  by (simp_all add: find_missing_value_info_def Let_def)

lemma find_missing_value_info_set:
  "set (find_missing_value_info b) =
     {m \<in> (\<Union>nd\<in>set (nodes b). set (node_input nd) \<union> set (node_output nd)). m \<notin> known_names b}"
  by (auto simp: find_missing_value_info_def Let_def)

lemma known_names_contains:
  "set (map vi_name (outputs b)) \<union> set (map vi_name (value_info b)) \<subseteq> known_names b"
  by (auto simp: known_names_def)

lemma build_graph_missing:
  assumes "assert_topologically_sorted (filter_unused_initializers b) = Inr ()"
    and "ms = filter (\<lambda>m. \<not> prefix ''conv_transpose_out'' m)
               (filter (\<lambda>m. \<not> is_deterministic_name m)
                  (find_missing_value_info
                     (if \<not> is_subgraph then filter_redundant_inputs (filter_unused_initializers b)
                      else filter_unused_initializers b)))"
    and "ms \<noteq> []"
  shows "build_graph name is_subgraph empty_inputs b =
           Inl (MissingValueInfo ms (case name of None \<Rightarrow> model_name b
                                     | Some s \<Rightarrow> (if s = [] then model_name b else s)))"
proof -
  define b2 where "b2 = (if \<not> is_subgraph then filter_redundant_inputs (filter_unused_initializers b)
                      else filter_unused_initializers b)"
  define m0 where "m0 = find_missing_value_info b2"
  have ms: "ms = filter (\<lambda>m. \<not> prefix ''conv_transpose_out'' m)
               (filter (\<lambda>m. \<not> is_deterministic_name m) m0)"
    using assms(2) by (simp add: m0_def b2_def)
  with assms(3) have m0_ne: "m0 \<noteq> []" by auto
  from assms(3) obtain x where "x \<in> set ms"
    by (cases ms) auto
  then have "x \<in> set (filter (\<lambda>m. \<not> is_deterministic_name m) m0)"
    unfolding ms by simp
  then have m1_ne: "fst (register_deterministic_parameters m0 b2) \<noteq> []"
    unfolding register_deterministic_parameters_remaining by (auto simp: filter_empty_conv)
  show ?thesis
    using assms(1) m0_ne m1_ne assms(3) ms
    unfolding build_graph_def Let_def b2_def [symmetric] m0_def [symmetric]
    by (simp add: case_prod_beta register_deterministic_parameters_remaining)
qed

section \<open>Claims about the graph builder\<close>

text \<open>
  Claim C6. After any sequence of \<open>add_input\<close>/\<open>add_output\<close> calls on a new builder, the
  input list and the output list each hold a name at most once; a second \<open>add_input\<close>
  with the same name leaves the input and output lists as the first call left them, and
  leaves the whole builder unchanged unless a node produces the name; a second
  \<open>add_output\<close> with the same name leaves the whole builder unchanged.
\<close>

theorem declare_input_output_idempotent:
  "distinct (map vi_name (inputs (run_declarations cs (init_builder ops mname inits conv))))
   \<and> distinct (map vi_name (outputs (run_declarations cs (init_builder ops mname inits conv))))
   \<and> inputs (add_input name s2 d2 (add_input name s1 d1 b)) = inputs (add_input name s1 d1 b)
   \<and> outputs (add_input name s2 d2 (add_input name s1 d1 b)) = outputs (add_input name s1 d1 b)
   \<and> (\<not> list_ex (\<lambda>nd. name \<in> set (node_output nd)) (nodes b) \<longrightarrow>
        add_input name s2 d2 (add_input name s1 d1 b) = add_input name s1 d1 b)
   \<and> add_output name s2 d2 (add_output name s1 d1 b) = add_output name s1 d1 b"
proof -
  have "distinct (map vi_name (inputs (init_builder ops mname inits conv)))"
    and "distinct (map vi_name (outputs (init_builder ops mname inits conv)))"
    by (simp_all add: init_builder_def)
  then show ?thesis
    using run_declarations_distinct [of "init_builder ops mname inits conv" cs]
    by (simp add: add_input_twice_inputs add_output_twice add_input_outputs add_input_twice)
qed

theorem declare_input_output_idempotent_witness:
  "add_input ''x'' (Some [IntDim 3]) (OnnxEnum 7) builder_with_input_x = builder_with_input_x
   \<and> map vi_name (inputs builder_with_input_x) = [''x'']"
proof -
  have "\<not> list_ex (\<lambda>nd. ''x'' \<in> set (node_output nd)) (nodes fresh_builder)"
    by (simp add: fresh_builder_def init_builder_def)
  then have "add_input ''x'' (Some [IntDim 3]) (OnnxEnum 7)
               (add_input ''x'' (Some [IntDim 2]) (NpScalarType Float32) fresh_builder)
             = add_input ''x'' (Some [IntDim 2]) (NpScalarType Float32) fresh_builder"
    using declare_input_output_idempotent [of "[]" 21 "''model''" None None "''x''"
        "Some [IntDim 3]" "OnnxEnum 7" "Some [IntDim 2]" "NpScalarType Float32" fresh_builder]
    by blast
  moreover have "map vi_name (inputs builder_with_input_x) = [''x'']"
    by (simp add: example_defs eval_defs)
  ultimately show ?thesis
    by (simp add: builder_with_input_x_def)
qed

text \<open>
  Claim C10. \<open>add_scalar_input\<close> appends an input entry with the given name in every
  builder state, whether or not an input of that name exists: two calls with one name add
  two entries of that name.
\<close>

theorem add_scalar_input_always_appends:
  "inputs (add_scalar_input name dt b) = inputs b @ [make_value_info b name (Some []) dt]
   \<and> vi_name (last (inputs (add_scalar_input name dt b))) = name
   \<and> length (filter (\<lambda>vi. vi_name vi = name)
               (inputs (add_scalar_input name dt' (add_scalar_input name dt b))))
       = length (filter (\<lambda>vi. vi_name vi = name) (inputs b)) + 2"
  by (simp add: add_scalar_input_def Let_def register_value_info_metadata_def make_value_info_def)

text \<open>
  Claim C3, as stated, fails: registering \<open>("B", 4)\<close> and then \<open>(-1, 4)\<close> for one name
  leaves \<open>(-1, 4)\<close> stored, although \<open>_is_shape_more_specific\<close> does not rate the second
  shape as more specific.
\<close>

theorem less_specific_shape_overwrites:
  "value_info_metadata
     (register_value_info_metadata ''t'' (Some [IntDim (- 1), IntDim 4]) (OnnxEnum 1) None
        (register_value_info_metadata ''t'' (Some [StrDim ''B'', IntDim 4]) (OnnxEnum 1) None
           fresh_builder)) ''t''
     = Some ([IntDim (- 1), IntDim 4], OnnxEnum 1)
   \<and> \<not> is_shape_more_specific [StrDim ''B'', IntDim 4] [IntDim (- 1), IntDim 4]"
  by (simp add: register_value_info_metadata_def Let_def as_tuple_def is_shape_more_specific_def
      in_minus_one_none_def)

text \<open>
  Claim C3, amended. For a builder whose converter holds no symbolic shape for the
  name (no converter, no \<open>symbolic_shapes\<close> table, or no entry for the name),
  \<open>register_value_info_metadata\<close> is last-write-wins: after two registrations for one
  name the stored shape and dtype are those of the second call, whatever the ranks and
  the specificity of the two shapes. So \<open>(-1, 4)\<close> then \<open>("B", 4)\<close> stores \<open>("B", 4)\<close>,
  \<open>("B", 4)\<close> then \<open>(-1, 4)\<close> stores \<open>(-1, 4)\<close>, and a rank change replaces the stored
  shape. The helper \<open>_is_shape_more_specific\<close> rates every rank change as more specific,
  and two shapes of one rank as more specific exactly when some position goes from
  \<open>-1\<close> or \<open>None\<close> to something else, so \<open>(-1, 4)\<close> to \<open>("B", 4)\<close> is and \<open>("B", 4)\<close> to
  \<open>(-1, 4)\<close> is not; registration does not consult it.
\<close>

theorem register_value_info_metadata_last_write_wins:
  "((\<forall>c ss. converter b = Some c \<and> symbolic_shapes c = Some ss \<longrightarrow> ss name = None) \<longrightarrow>
      value_info_metadata
        (register_value_info_metadata name s2 d2 o2
           (register_value_info_metadata name s1 d1 o1 b)) name
        = Some (as_tuple s2, d2)
      \<and> (\<exists>origin. value_info_metadata_with_origin
            (register_value_info_metadata name s2 d2 o2
               (register_value_info_metadata name s1 d1 o1 b)) name
            = Some (as_tuple s2, d2, origin)))
   \<and> (length old \<noteq> length new \<longrightarrow> is_shape_more_specific old new)
   \<and> (length old = length new \<longrightarrow>
        is_shape_more_specific old new
          = (\<exists>i<length old. in_minus_one_none (old ! i) \<and> \<not> in_minus_one_none (new ! i)))
   \<and> is_shape_more_specific [IntDim (- 1), IntDim 4] [StrDim ''B'', IntDim 4]
   \<and> \<not> is_shape_more_specific [StrDim ''B'', IntDim 4] [IntDim (- 1), IntDim 4]"
proof -
  have store: "value_info_metadata
        (register_value_info_metadata name s2 d2 o2
           (register_value_info_metadata name s1 d1 o1 b)) name
        = Some (as_tuple s2, d2)
      \<and> (\<exists>origin. value_info_metadata_with_origin
            (register_value_info_metadata name s2 d2 o2
               (register_value_info_metadata name s1 d1 o1 b)) name
            = Some (as_tuple s2, d2, origin))"
    by (simp add: register_value_info_metadata_def Let_def)
  have rank: "length old \<noteq> length new \<longrightarrow> is_shape_more_specific old new"
    by (simp add: is_shape_more_specific_def)
  have same: "length old = length new \<longrightarrow>
        is_shape_more_specific old new
          = (\<exists>i<length old. in_minus_one_none (old ! i) \<and> \<not> in_minus_one_none (new ! i))"
  proof
    assume len: "length old = length new"
    have "list_ex (\<lambda>(o', n'). in_minus_one_none o' \<and> \<not> in_minus_one_none n') (zip old new)
            = (\<exists>i<length (zip old new).
                 (\<lambda>(o', n'). in_minus_one_none o' \<and> \<not> in_minus_one_none n') (zip old new ! i))"
      unfolding list_ex_iff by (metis in_set_conv_nth)
    also have "\<dots> = (\<exists>i<length old. in_minus_one_none (old ! i) \<and> \<not> in_minus_one_none (new ! i))"
      using len by auto
    finally show "is_shape_more_specific old new
          = (\<exists>i<length old. in_minus_one_none (old ! i) \<and> \<not> in_minus_one_none (new ! i))"
      using len by (simp add: is_shape_more_specific_def)
  qed
  have examples: "is_shape_more_specific [IntDim (- 1), IntDim 4] [StrDim ''B'', IntDim 4]"
    "\<not> is_shape_more_specific [StrDim ''B'', IntDim 4] [IntDim (- 1), IntDim 4]"
    by (simp_all add: is_shape_more_specific_def in_minus_one_none_def)
  from store have guarded:
    "(\<forall>c ss. converter b = Some c \<and> symbolic_shapes c = Some ss \<longrightarrow> ss name = None) \<longrightarrow>
      value_info_metadata
        (register_value_info_metadata name s2 d2 o2
           (register_value_info_metadata name s1 d1 o1 b)) name
        = Some (as_tuple s2, d2)
      \<and> (\<exists>origin. value_info_metadata_with_origin
            (register_value_info_metadata name s2 d2 o2
               (register_value_info_metadata name s1 d1 o1 b)) name
            = Some (as_tuple s2, d2, origin))"
    by (rule impI)
  show ?thesis
    by (intro conjI guarded rank same examples)
qed

theorem register_value_info_metadata_last_write_wins_witness:
  "value_info_metadata
     (register_value_info_metadata ''t'' (Some [IntDim (- 1)]) (OnnxEnum 7) None
        (register_value_info_metadata ''t'' (Some [StrDim ''B'', IntDim 4]) (OnnxEnum 1) None
           fresh_builder)) ''t''
     = Some ([IntDim (- 1)], OnnxEnum 7)
   \<and> is_shape_more_specific [StrDim ''B'', IntDim 4] [IntDim (- 1)]
   \<and> value_info_metadata
       (register_value_info_metadata ''t'' (Some [StrDim ''B'', IntDim 4]) (OnnxEnum 1) None
          (register_value_info_metadata ''t'' (Some [NoneDim, IntDim 4]) (OnnxEnum 1) None
             (init_builder 21 ''model'' None
                (Some \<lparr> symbolic_shapes = Some [''u'' \<mapsto> [IntDim 2]],
                        symbolic_dim_to_origin = None \<rparr>)))) ''t''
       = Some ([StrDim ''B'', IntDim 4], OnnxEnum 1)
   \<and> is_shape_more_specific [NoneDim, IntDim 4] [StrDim ''B'', IntDim 4]"
proof -
  note t1 = register_value_info_metadata_last_write_wins
    [of fresh_builder "''t''" "Some [IntDim (- 1)]" "OnnxEnum 7" None
        "Some [StrDim ''B'', IntDim 4]" "OnnxEnum 1" None
        "[StrDim ''B'', IntDim 4]" "[IntDim (- 1)]"]
  note t2 = register_value_info_metadata_last_write_wins
    [of "init_builder 21 ''model'' None
           (Some \<lparr> symbolic_shapes = Some [''u'' \<mapsto> [IntDim 2]],
                   symbolic_dim_to_origin = None \<rparr>)"
        "''t''" "Some [StrDim ''B'', IntDim 4]" "OnnxEnum 1" None
        "Some [NoneDim, IntDim 4]" "OnnxEnum 1" None
        "[NoneDim, IntDim 4]" "[StrDim ''B'', IntDim 4]"]
  have first: "value_info_metadata
     (register_value_info_metadata ''t'' (Some [IntDim (- 1)]) (OnnxEnum 7) None
        (register_value_info_metadata ''t'' (Some [StrDim ''B'', IntDim 4]) (OnnxEnum 1) None
           fresh_builder)) ''t''
     = Some ([IntDim (- 1)], OnnxEnum 7)"
    using t1 by (simp add: fresh_builder_def init_builder_def as_tuple_def)
  have second: "is_shape_more_specific [StrDim ''B'', IntDim 4] [IntDim (- 1)]"
    using t1 by simp
  have third: "value_info_metadata
       (register_value_info_metadata ''t'' (Some [StrDim ''B'', IntDim 4]) (OnnxEnum 1) None
          (register_value_info_metadata ''t'' (Some [NoneDim, IntDim 4]) (OnnxEnum 1) None
             (init_builder 21 ''model'' None
                (Some \<lparr> symbolic_shapes = Some [''u'' \<mapsto> [IntDim 2]],
                        symbolic_dim_to_origin = None \<rparr>)))) ''t''
       = Some ([StrDim ''B'', IntDim 4], OnnxEnum 1)"
    using t2 by (simp add: init_builder_def as_tuple_def)
  have "\<exists>i<length [NoneDim, IntDim 4].
          in_minus_one_none ([NoneDim, IntDim 4] ! i)
          \<and> \<not> in_minus_one_none ([StrDim ''B'', IntDim 4] ! i)"
    by (rule exI [of _ 0]) (simp add: in_minus_one_none_def)
  then have fourth: "is_shape_more_specific [NoneDim, IntDim 4] [StrDim ''B'', IntDim 4]"
    using t2 by simp
  from first second third fourth show ?thesis
    by (intro conjI)
qed

text \<open>
  Claim C7, as stated, fails: declaring an input that is already declared returns at once,
  and the metadata store still has no entry for the name.
\<close>

theorem redeclared_input_has_no_metadata:
  "list_ex (\<lambda>vi. vi_name vi = ''x'') (inputs builder_with_input_x)
   \<and> value_info_metadata
       (add_input ''x'' (Some [IntDim 2]) (NpScalarType Float32) builder_with_input_x) ''x'' = None"
  by (simp add: example_defs eval_defs)

text \<open>
  Claim C7, amended. If the name is produced by an existing node, \<open>add_input\<close> adds no
  formal input and records value-info, so the metadata store has an entry for the name
  afterwards; if the name is not produced by a node and is already a declared input, the
  call leaves the builder unchanged.
\<close>

theorem add_input_no_op_cases:
  "(list_ex (\<lambda>nd. name \<in> set (node_output nd)) (nodes b) \<longrightarrow>
      inputs (add_input name shp dt b) = inputs b
      \<and> value_info_metadata (add_input name shp dt b) name \<noteq> None
      \<and> name \<in> set (map vi_name (value_info (add_input name shp dt b))))
   \<and> (\<not> list_ex (\<lambda>nd. name \<in> set (node_output nd)) (nodes b)
        \<and> list_ex (\<lambda>vi. vi_name vi = name) (inputs b) \<longrightarrow>
      add_input name shp dt b = b)"
  using add_value_info_registers [of name shp dt b]
  by (simp add: add_input_def add_value_info_frame)

theorem add_input_no_op_cases_witness:
  "inputs (add_input ''h'' (Some [IntDim 2]) (NpScalarType Float32) builder_missing)
     = inputs builder_missing
   \<and> value_info_metadata
        (add_input ''h'' (Some [IntDim 2]) (NpScalarType Float32) builder_missing) ''h'' \<noteq> None
   \<and> add_input ''x'' None (OnnxEnum 7) builder_with_input_x = builder_with_input_x"
proof -
  have p1: "list_ex (\<lambda>nd. ''h'' \<in> set (node_output nd)) (nodes builder_missing)"
    by (simp add: example_defs eval_defs)
  have p2: "\<not> list_ex (\<lambda>nd. ''x'' \<in> set (node_output nd)) (nodes builder_with_input_x)
            \<and> list_ex (\<lambda>vi. vi_name vi = ''x'') (inputs builder_with_input_x)"
    by (simp add: example_defs eval_defs)
  show ?thesis
    using p1 p2
      add_input_no_op_cases [of "''h''" builder_missing "Some [IntDim 2]" "NpScalarType Float32"]
      add_input_no_op_cases [of "''x''" builder_with_input_x None "OnnxEnum 7"]
    by blast
qed

text \<open>
  Claim C1. If \<open>_build_graph\<close> returns a graph, then every non-empty input name of every node
  is a declared input, an initializer or an output of an earlier node in the stored order;
  and if some node consumes a name that is none of these, \<open>_build_graph\<close> raises the
  not-topologically-sorted error.
\<close>

theorem finalize_topologically_sound:
  "(build_graph name is_subgraph empty_inputs b = Inr r \<longrightarrow>
      (\<forall>i<length (nodes b). \<forall>x\<in>set (node_input (nodes b ! i)).
         x \<noteq> [] \<longrightarrow>
         x \<in> set (map vi_name (inputs b)) \<union> set (map t_name (initializers b))
               \<union> \<Union> (set ` node_output ` set (take i (nodes b)))))
   \<and> ((\<exists>i<length (nodes b). \<exists>x\<in>set (node_input (nodes b ! i)).
          x \<noteq> [] \<and>
          x \<notin> set (map vi_name (inputs b)) \<union> set (map t_name (initializers b))
                \<union> \<Union> (set ` node_output ` set (take i (nodes b)))) \<longrightarrow>
       (\<exists>nm op x. build_graph name is_subgraph empty_inputs b
                     = Inl (NotTopologicallySorted nm op x)))"
proof -
  define A where "A = (\<lambda>i. set (map vi_name (inputs b)) \<union> set (map t_name (initializers b))
              \<union> \<Union> (set ` node_output ` set (take i (nodes b))))"
  have sorted_iff: "assert_topologically_sorted (filter_unused_initializers b) = Inr () \<longleftrightarrow>
     (\<forall>i<length (nodes b). \<forall>x\<in>set (node_input (nodes b ! i)). x \<noteq> [] \<longrightarrow> x \<in> A i)"
    unfolding A_def by (rule assert_topologically_sorted_iff)
  have accepted: "\<forall>i<length (nodes b). \<forall>x\<in>set (node_input (nodes b ! i)). x \<noteq> [] \<longrightarrow> x \<in> A i"
    if "build_graph name is_subgraph empty_inputs b = Inr r"
    using build_graph_Inr_sorted [OF that] sorted_iff by simp
  have rejected: "\<exists>nm op x. build_graph name is_subgraph empty_inputs b
                     = Inl (NotTopologicallySorted nm op x)"
    if "\<exists>i<length (nodes b). \<exists>x\<in>set (node_input (nodes b ! i)). x \<noteq> [] \<and> x \<notin> A i"
  proof -
    from that have "\<not> (\<forall>i<length (nodes b). \<forall>x\<in>set (node_input (nodes b ! i)). x \<noteq> [] \<longrightarrow> x \<in> A i)"
      by metis
    then have "assert_topologically_sorted (filter_unused_initializers b) \<noteq> Inr ()"
      using sorted_iff by simp
    then show ?thesis by (rule build_graph_unsorted)
  qed
  from accepted rejected show ?thesis
    unfolding A_def by (intro conjI impI)
qed

theorem finalize_topologically_sound_witness:
  "(\<exists>r. build_graph (Some ''g'') False False builder_relu = Inr r)
   \<and> ''h'' \<in> set (map vi_name (inputs builder_relu)) \<union> set (map t_name (initializers builder_relu))
               \<union> \<Union> (set ` node_output ` set (take 1 (nodes builder_relu)))
   \<and> (\<exists>nm op x. build_graph (Some ''g'') False False builder_unsorted
                   = Inl (NotTopologicallySorted nm op x))"
proof -
  obtain r where acc: "build_graph (Some ''g'') False False builder_relu = Inr r"
    using builder_relu_accepted by (rule exE)
  note sound = finalize_topologically_sound [of "Some ''g''" False False builder_relu r]
  from sound have "build_graph (Some ''g'') False False builder_relu = Inr r \<longrightarrow>
      (\<forall>i<length (nodes builder_relu). \<forall>x\<in>set (node_input (nodes builder_relu ! i)).
         x \<noteq> [] \<longrightarrow>
         x \<in> set (map vi_name (inputs builder_relu)) \<union> set (map t_name (initializers builder_relu))
               \<union> \<Union> (set ` node_output ` set (take i (nodes builder_relu))))"
    by (rule conjunct1)
  from this acc have all_ok:
    "\<forall>i<length (nodes builder_relu). \<forall>x\<in>set (node_input (nodes builder_relu ! i)).
         x \<noteq> [] \<longrightarrow>
         x \<in> set (map vi_name (inputs builder_relu)) \<union> set (map t_name (initializers builder_relu))
               \<union> \<Union> (set ` node_output ` set (take i (nodes builder_relu)))"
    by (rule mp)
  have "1 < length (nodes builder_relu)"
    and "''h'' \<in> set (node_input (nodes builder_relu ! 1))" and "''h'' \<noteq> []"
    by (simp_all add: builder_relu_nodes)
  then have second:
    "''h'' \<in> set (map vi_name (inputs builder_relu)) \<union> set (map t_name (initializers builder_relu))
               \<union> \<Union> (set ` node_output ` set (take 1 (nodes builder_relu)))"
    by (rule all_ok [rule_format])
  have bad: "\<exists>i<length (nodes builder_unsorted). \<exists>x\<in>set (node_input (nodes builder_unsorted ! i)).
          x \<noteq> [] \<and>
          x \<notin> set (map vi_name (inputs builder_unsorted))
                \<union> set (map t_name (initializers builder_unsorted))
                \<union> \<Union> (set ` node_output ` set (take i (nodes builder_unsorted)))"
    by (rule exI [of _ 0]) (simp add: builder_unsorted_nodes)
  note unsound = finalize_topologically_sound [of "Some ''g''" False False builder_unsorted undefined]
  from unsound have "(\<exists>i<length (nodes builder_unsorted). \<exists>x\<in>set (node_input (nodes builder_unsorted ! i)).
          x \<noteq> [] \<and>
          x \<notin> set (map vi_name (inputs builder_unsorted))
                \<union> set (map t_name (initializers builder_unsorted))
                \<union> \<Union> (set ` node_output ` set (take i (nodes builder_unsorted)))) \<longrightarrow>
       (\<exists>nm op x. build_graph (Some ''g'') False False builder_unsorted
                     = Inl (NotTopologicallySorted nm op x))"
    by (rule conjunct2)
  from this bad have "\<exists>nm op x. build_graph (Some ''g'') False False builder_unsorted
                   = Inl (NotTopologicallySorted nm op x)"
    by (rule mp)
  with acc second show ?thesis by (intro conjI exI [of _ r])
qed

text \<open>
  Claim C4, as stated, fails: a node output whose name starts with \<open>conv_transpose_out\<close>
  and that has no value-info of any kind is dropped from the missing list, and
  \<open>_build_graph\<close> returns a graph.
\<close>

theorem conv_transpose_output_escapes_check:
  "\<exists>g b'. build_graph (Some ''g'') False False builder_conv_transpose = Inr (g, b')
     \<and> g_node g = [Node ''n0'' ''ConvTranspose'' [''x''] [''conv_transpose_out_0''] []]
     \<and> ''conv_transpose_out_0'' \<notin> set (map vi_name (g_input g @ g_output g @ g_value_info g))
     \<and> ''conv_transpose_out_0'' \<notin> set (map t_name (g_initializer g))
     \<and> value_info_metadata b' ''conv_transpose_out_0'' = None"
  by (simp add: example_defs eval_defs)

text \<open>
  Claim C4, amended. Let a node output name be no declared input, output, initializer or
  intermediate, not match the deterministic-flag convention (equal to \<open>deterministic\<close> or
  ending in \<open>_deterministic\<close>) and not start with \<open>conv_transpose_out\<close>. Then \<open>_build_graph\<close>
  does not return a graph: it raises the not-topologically-sorted error, or it raises the
  missing-value-info error carrying the graph name and a sorted, duplicate-free list that
  contains the name and only names that nodes refer to and that have no value-info.
\<close>

theorem missing_value_info_caught:
  "nd \<in> set (nodes b) \<and> n \<in> set (node_output nd) \<and> n \<notin> known_names b
   \<and> \<not> is_deterministic_name n \<and> \<not> prefix ''conv_transpose_out'' n \<longrightarrow>
     (\<exists>nm op x. build_graph name is_subgraph empty_inputs b = Inl (NotTopologicallySorted nm op x))
     \<or> (\<exists>missing.
           build_graph name is_subgraph empty_inputs b =
             Inl (MissingValueInfo missing
                    (case name of None \<Rightarrow> model_name b
                     | Some s \<Rightarrow> (if s = [] then model_name b else s)))
           \<and> n \<in> set missing \<and> sorted missing \<and> distinct missing
           \<and> set missing \<subseteq> (\<Union>nd\<in>set (nodes b). set (node_input nd) \<union> set (node_output nd))
                              - set (map vi_name (outputs b @ value_info b)))"
proof (intro impI)
  assume h: "nd \<in> set (nodes b) \<and> n \<in> set (node_output nd) \<and> n \<notin> known_names b
   \<and> \<not> is_deterministic_name n \<and> \<not> prefix ''conv_transpose_out'' n"
  define b2 where "b2 = (if \<not> is_subgraph then filter_redundant_inputs (filter_unused_initializers b)
                      else filter_unused_initializers b)"
  define ms where "ms = filter (\<lambda>m. \<not> prefix ''conv_transpose_out'' m)
               (filter (\<lambda>m. \<not> is_deterministic_name m) (find_missing_value_info b2))"
  from h have h1: "nd \<in> set (nodes b)" and h2: "n \<in> set (node_output nd)"
    and h3: "n \<notin> known_names b" and h4: "\<not> is_deterministic_name n"
    and h5: "\<not> prefix ''conv_transpose_out'' n"
    by simp_all
  have nodes2: "nodes b2 = nodes b"
    unfolding b2_def by (rule pruned_nodes)
  have outs2: "outputs b2 = outputs b" and vi2: "value_info b2 = value_info b"
    unfolding b2_def by (rule pruned_outputs_value_info)+
  have "known_names b2 \<subseteq> known_names b"
    unfolding b2_def by (rule known_names_pruned)
  from this h3 have unknown: "n \<notin> known_names b2"
    by (rule contra_subsetD)
  define refs where "refs = (\<Union>nd\<in>set (nodes b). set (node_input nd) \<union> set (node_output nd))"
  have missing_set: "set (find_missing_value_info b2) = {m \<in> refs. m \<notin> known_names b2}"
    unfolding find_missing_value_info_set nodes2 refs_def ..
  have "n \<in> refs"
    unfolding refs_def using h1 h2 by blast
  with unknown have "n \<in> set (find_missing_value_info b2)"
    unfolding missing_set by simp
  with h4 h5 have n_in: "n \<in> set ms"
    by (simp add: ms_def)
  have srt: "sorted ms" "distinct ms"
    by (simp_all add: ms_def find_missing_value_info_sorted sorted_wrt_filter)
  have declared: "set (map vi_name (outputs b @ value_info b)) \<subseteq> known_names b2"
    using known_names_contains [of b2] by (simp add: outs2 vi2)
  have "set ms \<subseteq> set (find_missing_value_info b2)"
    by (auto simp: ms_def)
  also have "\<dots> \<subseteq> refs - set (map vi_name (outputs b @ value_info b))"
    unfolding missing_set using declared by blast
  finally have sub: "set ms \<subseteq> (\<Union>nd\<in>set (nodes b). set (node_input nd) \<union> set (node_output nd))
                              - set (map vi_name (outputs b @ value_info b))"
    unfolding refs_def .
  show "(\<exists>nm op x. build_graph name is_subgraph empty_inputs b = Inl (NotTopologicallySorted nm op x))
     \<or> (\<exists>missing.
           build_graph name is_subgraph empty_inputs b =
             Inl (MissingValueInfo missing
                    (case name of None \<Rightarrow> model_name b
                     | Some s \<Rightarrow> (if s = [] then model_name b else s)))
           \<and> n \<in> set missing \<and> sorted missing \<and> distinct missing
           \<and> set missing \<subseteq> (\<Union>nd\<in>set (nodes b). set (node_input nd) \<union> set (node_output nd))
                              - set (map vi_name (outputs b @ value_info b)))"
  proof (cases "assert_topologically_sorted (filter_unused_initializers b) = Inr ()")
    case True
    from n_in have "ms \<noteq> []" by auto
    with True have "build_graph name is_subgraph empty_inputs b =
           Inl (MissingValueInfo ms (case name of None \<Rightarrow> model_name b
                                     | Some s \<Rightarrow> (if s = [] then model_name b else s)))"
      unfolding ms_def b2_def by (intro build_graph_missing) simp_all
    with n_in srt sub show ?thesis
      by (intro disjI2 exI [of _ ms] conjI)
  next
    case False
    then show ?thesis
      by (intro disjI1 build_graph_unsorted)
  qed
qed

theorem missing_value_info_caught_witness:
  "build_graph (Some ''g'') False False builder_missing = Inl (MissingValueInfo [''h''] ''g'')
   \<and> ((\<exists>nm op x. build_graph (Some ''g'') False False builder_missing
                    = Inl (NotTopologicallySorted nm op x))
      \<or> (\<exists>missing.
           build_graph (Some ''g'') False False builder_missing = Inl (MissingValueInfo missing ''g'')
           \<and> ''h'' \<in> set missing \<and> sorted missing \<and> distinct missing
           \<and> set missing \<subseteq> (\<Union>nd\<in>set (nodes builder_missing). set (node_input nd) \<union> set (node_output nd))
                              - set (map vi_name (outputs builder_missing @ value_info builder_missing))))"
proof -
  have pre: "Node ''n0'' ''Relu'' [''x''] [''h''] [] \<in> set (nodes builder_missing)
     \<and> ''h'' \<in> set (node_output (Node ''n0'' ''Relu'' [''x''] [''h''] []))
     \<and> ''h'' \<notin> known_names builder_missing
     \<and> \<not> is_deterministic_name ''h'' \<and> \<not> prefix ''conv_transpose_out'' ''h''"
    by (simp add: example_defs eval_defs)
  have run: "build_graph (Some ''g'') False False builder_missing = Inl (MissingValueInfo [''h''] ''g'')"
    by (simp add: example_defs eval_defs)
  note caught = missing_value_info_caught [of "Node ''n0'' ''Relu'' [''x''] [''h''] []"
      builder_missing "''h''" "Some ''g''" False False]
  from caught pre have "(\<exists>nm op x. build_graph (Some ''g'') False False builder_missing
                    = Inl (NotTopologicallySorted nm op x))
      \<or> (\<exists>missing.
           build_graph (Some ''g'') False False builder_missing =
             Inl (MissingValueInfo missing
                    (case Some ''g'' of None \<Rightarrow> model_name builder_missing
                     | Some s \<Rightarrow> (if s = [] then model_name builder_missing else s)))
           \<and> ''h'' \<in> set missing \<and> sorted missing \<and> distinct missing
           \<and> set missing \<subseteq> (\<Union>nd\<in>set (nodes builder_missing). set (node_input nd) \<union> set (node_output nd))
                              - set (map vi_name (outputs builder_missing @ value_info builder_missing)))"
    by (rule mp)
  then have "(\<exists>nm op x. build_graph (Some ''g'') False False builder_missing
                    = Inl (NotTopologicallySorted nm op x))
      \<or> (\<exists>missing.
           build_graph (Some ''g'') False False builder_missing = Inl (MissingValueInfo missing ''g'')
           \<and> ''h'' \<in> set missing \<and> sorted missing \<and> distinct missing
           \<and> set missing \<subseteq> (\<Union>nd\<in>set (nodes builder_missing). set (node_input nd) \<union> set (node_output nd))
                              - set (map vi_name (outputs builder_missing @ value_info builder_missing)))"
    by (simp only: option.case list.distinct if_False)
  with run show ?thesis by (rule conjI)
qed

section \<open>Properties of the scatter legalizer\<close>

subsection \<open>Dimension equality\<close>

lemma is_dim_symbolic_int [simp]:
  "\<not> is_dim_symbolic s (PyInt a)" "\<not> is_dim_symbolic s (NpInt a)"
  by (simp_all add: is_dim_symbolic_def)

lemma is_dim_symbolic_Obj: "is_dim_symbolic s d \<Longrightarrow> \<exists>n l c. d = Obj n l c"
  by (cases d) simp_all

lemma same_object_Obj:
  "same_object d1 d2 \<longleftrightarrow> (\<exists>n l1 c1 l2 c2. d1 = Obj n l1 c1 \<and> d2 = Obj n l2 c2)"
  by (cases d1; cases d2) auto

lemma dims_all_equal_zip:
  "length xs = length ys \<Longrightarrow>
   dims_all_equal s (zip xs ys) = Inr True \<longleftrightarrow>
     (\<forall>i<length xs. are_dims_equal s (xs ! i) (ys ! i) = Inr True)"
proof (induction xs ys rule: list_induct2)
  case Nil
  show ?case by simp
next
  case (Cons x xs y ys)
  show ?case
  proof (cases "are_dims_equal s x y")
    case (Inl e)
    then show ?thesis
      by (auto simp: bind_result_def All_less_Suc2)
  next
    case (Inr eq)
    with Cons.IH show ?thesis
      by (cases eq) (auto simp: bind_result_def All_less_Suc2)
  qed
qed

lemma are_shapes_equal_True_iff:
  "are_shapes_equal s sh1 sh2 = Inr True \<longleftrightarrow>
     length sh1 = length sh2
     \<and> (\<forall>i<length sh1. are_dims_equal s (sh1 ! i) (sh2 ! i) = Inr True)"
  by (cases "length sh1 = length sh2") (simp_all add: are_shapes_equal_def dims_all_equal_zip)

text \<open>
  Claim C8. For \<open>_are_dims_equal\<close>: two concrete dimensions (Python or numpy integers, or
  any two dimensions rated not symbolic whose \<open>int\<close> conversion succeeds) are equal
  exactly when their integer values are equal; a symbolic dimension and a concrete one
  are never equal; two symbolic dimensions are equal exactly when they are the same
  object. \<open>_are_shapes_equal\<close> holds exactly for shapes of one length whose dimensions
  are pairwise equal in this relation.
\<close>

theorem dims_equal_relation:
  "are_dims_equal s (PyInt a) (PyInt b) = Inr (a = b)
   \<and> are_dims_equal s (NpInt a) (PyInt b) = Inr (a = b)
   \<and> are_dims_equal s (PyInt a) (NpInt b) = Inr (a = b)
   \<and> are_dims_equal s (NpInt a) (NpInt b) = Inr (a = b)
   \<and> (\<not> is_dim_symbolic s d1 \<and> \<not> is_dim_symbolic s d2 \<and> py_int d1 = Inr a \<and> py_int d2 = Inr b \<longrightarrow>
        are_dims_equal s d1 d2 = Inr (a = b))
   \<and> (is_dim_symbolic s d1 \<noteq> is_dim_symbolic s d2 \<longrightarrow> are_dims_equal s d1 d2 = Inr False)
   \<and> (is_dim_symbolic s d1 \<and> is_dim_symbolic s d2 \<longrightarrow>
        are_dims_equal s d1 d2 = Inr (same_object d1 d2)
        \<and> (are_dims_equal s d1 d2 = Inr True \<longleftrightarrow>
             (\<exists>n l1 c1 l2 c2. d1 = Obj n l1 c1 \<and> d2 = Obj n l2 c2)))
   \<and> (are_shapes_equal s sh1 sh2 = Inr True \<longleftrightarrow>
        length sh1 = length sh2
        \<and> (\<forall>i<length sh1. are_dims_equal s (sh1 ! i) (sh2 ! i) = Inr True))"
proof -
  have ints: "are_dims_equal s (PyInt a) (PyInt b) = Inr (a = b)"
    "are_dims_equal s (NpInt a) (PyInt b) = Inr (a = b)"
    "are_dims_equal s (PyInt a) (NpInt b) = Inr (a = b)"
    "are_dims_equal s (NpInt a) (NpInt b) = Inr (a = b)"
    by (simp_all add: are_dims_equal_def bind_result_def)
  have concrete: "\<not> is_dim_symbolic s d1 \<and> \<not> is_dim_symbolic s d2 \<and> py_int d1 = Inr a \<and> py_int d2 = Inr b \<longrightarrow>
        are_dims_equal s d1 d2 = Inr (a = b)"
    by (simp add: are_dims_equal_def bind_result_def)
  have mixed: "is_dim_symbolic s d1 \<noteq> is_dim_symbolic s d2 \<longrightarrow> are_dims_equal s d1 d2 = Inr False"
    by (auto simp: are_dims_equal_def)
  have symbolic: "is_dim_symbolic s d1 \<and> is_dim_symbolic s d2 \<longrightarrow>
        are_dims_equal s d1 d2 = Inr (same_object d1 d2)
        \<and> (are_dims_equal s d1 d2 = Inr True \<longleftrightarrow>
             (\<exists>n l1 c1 l2 c2. d1 = Obj n l1 c1 \<and> d2 = Obj n l2 c2))"
    by (simp add: are_dims_equal_def same_object_Obj)
  show ?thesis
    by (intro conjI ints concrete mixed symbolic are_shapes_equal_True_iff)
qed

theorem dims_equal_relation_witness:
  "are_dims_equal plain_converter (NpInt 3) (PyInt 3) = Inr True
   \<and> are_dims_equal plain_converter symbolic_B (PyInt 4) = Inr False
   \<and> are_dims_equal plain_converter symbolic_B symbolic_B = Inr True
   \<and> are_dims_equal plain_converter symbolic_B (Obj 1 None IntTypeError) = Inr False
   \<and> are_dims_equal plain_converter (PyInt 6) (PyInt 6) = Inr True"
proof -
  note rel = dims_equal_relation [of plain_converter _ _ _ _ "[symbolic_B, PyInt 6]" "[symbolic_B, PyInt 6]"]
  have c: "\<not> is_dim_symbolic plain_converter (NpInt 3) \<and> \<not> is_dim_symbolic plain_converter (PyInt 3)
           \<and> py_int (NpInt 3) = Inr 3 \<and> py_int (PyInt 3) = Inr 3"
    by simp
  have m: "is_dim_symbolic plain_converter symbolic_B \<noteq> is_dim_symbolic plain_converter (PyInt 4)"
    by (simp add: is_dim_symbolic_def symbolic_B_def plain_converter_def)
  have y: "is_dim_symbolic plain_converter symbolic_B \<and> is_dim_symbolic plain_converter symbolic_B"
    and y': "is_dim_symbolic plain_converter symbolic_B
             \<and> is_dim_symbolic plain_converter (Obj 1 None IntTypeError)"
    by (simp_all add: is_dim_symbolic_def symbolic_B_def plain_converter_def)
  have "are_dims_equal plain_converter (NpInt 3) (PyInt 3) = Inr (3 = (3::int))"
    using rel [of 3 3 "NpInt 3" "PyInt 3"] c by blast
  moreover have "are_dims_equal plain_converter symbolic_B (PyInt 4) = Inr False"
    using rel [of 0 0 symbolic_B "PyInt 4"] m by blast
  moreover have "are_dims_equal plain_converter symbolic_B symbolic_B = Inr (same_object symbolic_B symbolic_B)"
    using rel [of 0 0 symbolic_B symbolic_B] y by blast
  moreover have "are_dims_equal plain_converter symbolic_B (Obj 1 None IntTypeError)
                 = Inr (same_object symbolic_B (Obj 1 None IntTypeError))"
    using rel [of 0 0 symbolic_B "Obj 1 None IntTypeError"] y' by blast
  moreover have "are_dims_equal plain_converter (PyInt 6) (PyInt 6) = Inr (6 = (6::int))"
    using rel [of 6 6 symbolic_B symbolic_B] by blast
  ultimately show ?thesis
    by (simp add: symbolic_B_def)
qed

subsection \<open>Target indices shape\<close>

text \<open>
  Claim C9. For an empty indices shape the target shape is \<open>(1, K)\<close>, which is \<open>(1, 0)\<close>
  for \<open>K = 0\<close>; for a rank-1 indices shape whose single dimension equals \<open>K > 0\<close> the
  target shape is \<open>(1, K)\<close>.
\<close>

theorem target_indices_shape_small_cases:
  "infer_target_indices_shape s [] k = Inr [PyInt 1, PyInt (int k)]
   \<and> infer_target_indices_shape s [] 0 = Inr [PyInt 1, PyInt 0]
   \<and> (0 < k \<and> are_dims_equal s d (PyInt (int k)) = Inr True \<longrightarrow>
        infer_target_indices_shape s [d] k = Inr [PyInt 1, PyInt (int k)])
   \<and> (0 < k \<longrightarrow> infer_target_indices_shape s [PyInt (int k)] k = Inr [PyInt 1, PyInt (int k)])"
  by (simp add: infer_target_indices_shape_def Let_def bind_result_def are_dims_equal_def)

theorem target_indices_shape_small_cases_witness:
  "infer_target_indices_shape plain_converter [NpInt 2] 2 = Inr [PyInt 1, PyInt 2]
   \<and> infer_target_indices_shape plain_converter [PyInt 3] 3 = Inr [PyInt 1, PyInt 3]"
proof -
  have "0 < (2::nat) \<and> are_dims_equal plain_converter (NpInt 2) (PyInt (int 2)) = Inr True"
    by (simp add: are_dims_equal_def bind_result_def)
  then have "infer_target_indices_shape plain_converter [NpInt 2] 2 = Inr [PyInt 1, PyInt (int 2)]"
    using target_indices_shape_small_cases [of plain_converter 2 "NpInt 2"] by blast
  moreover have "infer_target_indices_shape plain_converter [PyInt (int 3)] 3 = Inr [PyInt 1, PyInt (int 3)]"
    using target_indices_shape_small_cases [of plain_converter 3 "PyInt 0"] by simp
  ultimately show ?thesis by simp
qed

subsection \<open>Making shapes concrete\<close>

lemma make_concrete_from_length:
  "make_concrete_from s shp ctx i ds = Inr c \<Longrightarrow> length c = length ds"
  by (induction ds arbitrary: i c) (auto simp: bind_result_def split: sum.splits)

lemma make_concrete_from_error:
  "make_concrete_from s shp ctx i ds = Inl e \<Longrightarrow>
   \<exists>d j. e = CannotMakeConcrete ctx shp d (i + j) \<and> j < length ds \<and> ds ! j = d"
proof (induction ds arbitrary: i)
  case Nil
  then show ?case by simp
next
  case (Cons d ds)
  show ?case
  proof (cases "concrete_dim s shp ctx i d")
    case (Inl e')
    with Cons.prems have "e = e'"
      by (simp add: bind_result_def)
    moreover from Inl have "e' = CannotMakeConcrete ctx shp d i"
      by (auto simp: concrete_dim_def Let_def split: sdim.splits option.splits)
    ultimately show ?thesis
      by (intro exI [of _ d] exI [of _ 0]) simp
  next
    case (Inr v)
    with Cons.prems have "make_concrete_from s shp ctx (Suc i) ds = Inl e"
      by (auto simp: bind_result_def split: sum.splits)
    from Cons.IH [OF this] obtain d' j where
      "e = CannotMakeConcrete ctx shp d' (Suc i + j)" "j < length ds" "ds ! j = d'"
      by blast
    then show ?thesis
      by (intro exI [of _ d'] exI [of _ "Suc j"]) simp
  qed
qed

lemma make_shape_concrete_for_prod_length:
  "make_shape_concrete_for_prod shp s ctx = Inr c \<Longrightarrow> length c = length shp"
  unfolding make_shape_concrete_for_prod_def by (rule make_concrete_from_length)

lemma make_shape_concrete_for_prod_error:
  "make_shape_concrete_for_prod shp s ctx = Inl e \<Longrightarrow>
   \<exists>d i. e = CannotMakeConcrete ctx shp d i \<and> i < length shp \<and> shp ! i = d"
  unfolding make_shape_concrete_for_prod_def using make_concrete_from_error [of s shp ctx 0 shp e]
  by simp

lemma bind_result_Inr_iff:
  "bind_result m g = Inr r \<longleftrightarrow> (\<exists>v. m = Inr v \<and> g v = Inr r)"
  by (cases m) (simp_all add: bind_result_def)

lemma prepare_front_fields:
  assumes "prepare_front s operand_v indices_v updates_v dn st = Inr (f, st1)"
  shows "detect_batched_window s dn (operand_shape_symbolic f) (jax_indices_shape_symbolic f)
           (original_updates_shape_symbolic f) = Inr (use_depth2_for_batched_window_scatter f)"
    and "final_operand_name f = var_name operand_v"
    and "original_updates_name f = var_name updates_v"
  using assms
  by (auto simp: prepare_front_def bind_result_Inr_iff Let_def case_prod_beta)

lemma detect_batched_window_True:
  assumes "detect_batched_window s dn op idx upd = Inr True"
  shows "length (scatter_dims_to_operand_dims dn) = 1" and "length op = length upd"
    and "0 < length op" and "scatter_dims_to_operand_dims dn ! 0 < length upd"
proof -
  have guard: "length (scatter_dims_to_operand_dims dn) = 1 \<and> length op = length upd"
    using assms by (cases "length (scatter_dims_to_operand_dims dn) = 1 \<and> length op = length upd")
      (auto simp: detect_batched_window_def Let_def)
  then show "length (scatter_dims_to_operand_dims dn) = 1" and "length op = length upd"
    by simp_all
  have "0 < length op \<and> scatter_dims_to_operand_dims dn ! 0 < length upd"
    using assms
    by (simp add: detect_batched_window_def Let_def bind_result_Inr_iff split: if_splits) auto
  then show "0 < length op" and "scatter_dims_to_operand_dims dn ! 0 < length upd"
    by simp_all
qed

lemma batched_window_path_fails_operand:
  "make_shape_concrete_for_prod (operand_shape_symbolic f) s ''d2_op_shape'' = Inl e \<Longrightarrow>
   0 < length (scatter_dims_to_operand_dims dn) \<Longrightarrow>
   batched_window_path s f dn st = Inl e"
  unfolding batched_window_path_def by (simp add: bind_result_def py_index_def)

lemma batched_window_path_fails_updates:
  "make_shape_concrete_for_prod (operand_shape_symbolic f) s ''d2_op_shape'' = Inr c \<Longrightarrow>
   make_shape_concrete_for_prod (original_updates_shape_symbolic f) s ''d2_upd_shape'' = Inl e \<Longrightarrow>
   0 < length (scatter_dims_to_operand_dims dn) \<Longrightarrow>
   batched_window_path s f dn st = Inl e"
  unfolding batched_window_path_def by (simp add: bind_result_def py_index_def)

lemma batched_window_path_returns:
  assumes "make_shape_concrete_for_prod (operand_shape_symbolic f) s ''d2_op_shape'' = Inr c1"
    and "make_shape_concrete_for_prod (original_updates_shape_symbolic f) s ''d2_upd_shape'' = Inr c2"
    and "0 < length (scatter_dims_to_operand_dims dn)"
    and "0 < length (operand_shape_symbolic f)"
    and "scatter_dims_to_operand_dims dn ! 0 < length (original_updates_shape_symbolic f)"
  shows "\<exists>idx st'. batched_window_path s f dn st
                     = Inr ((final_operand_name f, idx, original_updates_name f), st')"
proof -
  have l1: "0 < length c1"
    using make_shape_concrete_for_prod_length [OF assms(1)] assms(4) by simp
  have l2: "scatter_dims_to_operand_dims dn ! 0 < length c2"
    using make_shape_concrete_for_prod_length [OF assms(2)] assms(5) by simp
  show ?thesis
    unfolding batched_window_path_def
    using assms l1 l2
    by (simp add: bind_result_def py_index_def case_prod_beta Let_def)
qed

lemmas legalizer_eval_defs =
  prepare_scatter_inputs_for_onnx_def prepare_front_def to_symbolic_tuple_def
  manually_ensure_shape_env_entry_def env_dim_def cast_indices_def
  infer_target_indices_shape_def generic_common_n_def reshape_indices_def
  are_shapes_equal_def are_dims_equal_def is_dim_symbolic_def bind_result_def
  get_unique_name_def get_constant_name_def emit_def expected_updates_shape_default_def
  detect_batched_window_def shapes_match_for_depth2_pattern_def
  make_shape_concrete_for_prod_def concrete_dim_def py_index_def
  reconcile_updates_default_def reconcile_updates_body_def reconcile_updates_handler_def
  element_count_def np_prod_def Let_def

lemmas legalizer_example_defs =
  plain_converter_def empty_conv_state_def symbolic_B_def window_dnums_def window_operand_def
  window_indices_def window_updates_def window_operand_concrete_def window_updates_concrete_def
  row_dnums_def empty_row_operand_def row_indices_def empty_row_updates_def row_operand_def
  row_updates_def row_updates_short_def unconvertible_X_def lenient_converter_def
  wide_operand_def padded_updates_def

lemma prepare_batched_window:
  assumes "prepare_front s operand_v indices_v updates_v dn st = Inr (f, st1)"
    and "use_depth2_for_batched_window_scatter f"
  shows "prepare_scatter_inputs_for_onnx s operand_v indices_v updates_v dn st
           = batched_window_path s f dn st1"
  using assms by (simp add: prepare_scatter_inputs_for_onnx_def bind_result_def)

lemma prepare_default:
  assumes "prepare_front s operand_v indices_v updates_v dn st = Inr (f, st1)"
    and "\<not> use_depth2_for_batched_window_scatter f"
  shows "prepare_scatter_inputs_for_onnx s operand_v indices_v updates_v dn st
           = bind_result (reconcile_updates_default s f dn st1)
               (\<lambda>(updates_name, st2).
                  Inr ((final_operand_name f, final_indices_name f, updates_name), st2))"
  using assms by (simp add: prepare_scatter_inputs_for_onnx_def bind_result_def)

lemma window_front_symbolic:
  "\<exists>f st1. prepare_front plain_converter window_operand window_indices window_updates
              window_dnums empty_conv_state = Inr (f, st1)
     \<and> use_depth2_for_batched_window_scatter f
     \<and> operand_shape_symbolic f = [symbolic_B, PyInt 6]"
  by (simp add: legalizer_eval_defs legalizer_example_defs)

lemma window_front_concrete:
  "\<exists>f st1. prepare_front plain_converter window_operand_concrete window_indices
              window_updates_concrete window_dnums empty_conv_state = Inr (f, st1)
     \<and> use_depth2_for_batched_window_scatter f
     \<and> operand_shape_symbolic f = [PyInt 4, PyInt 6]
     \<and> original_updates_shape_symbolic f = [PyInt 4, PyInt 6]"
  by (simp add: legalizer_eval_defs legalizer_example_defs)

text \<open>
  Claim C5, as stated, fails: with operand and updates of shape \<open>(B, 6)\<close>, \<open>B\<close> symbolic
  and not resolvable, and one start index, the batched-window pattern is detected and
  the legalizer raises; it does not fall through to the default path.
\<close>

theorem batched_window_symbolic_batch_raises:
  "(\<exists>f st1. prepare_front plain_converter window_operand window_indices window_updates
              window_dnums empty_conv_state = Inr (f, st1)
       \<and> use_depth2_for_batched_window_scatter f)
   \<and> prepare_scatter_inputs_for_onnx plain_converter window_operand window_indices window_updates
        window_dnums empty_conv_state
      = Inl (CannotMakeConcrete ''d2_op_shape'' [symbolic_B, PyInt 6] symbolic_B 0)"
  by (simp add: legalizer_eval_defs legalizer_example_defs batched_window_path_def)

text \<open>
  Claim C5, amended. When the batched-window pattern is detected, every dimension of the
  operand shape and of the updates shape must be concrete or resolvable by the
  converter: if some dimension of the operand shape is not, the legalizer raises the
  error of \<open>_make_shape_concrete_for_prod\<close> naming that dimension and its position; if the
  operand shape is fine and some dimension of the updates shape is not, likewise; and
  when both shapes can be made concrete it returns three names, the operand's, a new
  index tensor's and the original updates'.
\<close>

theorem batched_window_requires_concrete_shapes:
  "prepare_front s operand_v indices_v updates_v dn st = Inr (f, st1)
   \<and> use_depth2_for_batched_window_scatter f \<longrightarrow>
     (case make_shape_concrete_for_prod (operand_shape_symbolic f) s ''d2_op_shape'' of
        Inl e \<Rightarrow>
          prepare_scatter_inputs_for_onnx s operand_v indices_v updates_v dn st = Inl e
          \<and> (\<exists>d i. e = CannotMakeConcrete ''d2_op_shape'' (operand_shape_symbolic f) d i
                   \<and> i < length (operand_shape_symbolic f) \<and> operand_shape_symbolic f ! i = d)
      | Inr _ \<Rightarrow>
          (case make_shape_concrete_for_prod (original_updates_shape_symbolic f) s ''d2_upd_shape'' of
             Inl e \<Rightarrow>
               prepare_scatter_inputs_for_onnx s operand_v indices_v updates_v dn st = Inl e
               \<and> (\<exists>d i. e = CannotMakeConcrete ''d2_upd_shape'' (original_updates_shape_symbolic f) d i
                        \<and> i < length (original_updates_shape_symbolic f)
                        \<and> original_updates_shape_symbolic f ! i = d)
           | Inr _ \<Rightarrow>
               (\<exists>idx st'. prepare_scatter_inputs_for_onnx s operand_v indices_v updates_v dn st
                            = Inr ((var_name operand_v, idx, var_name updates_v), st'))))"
proof (intro impI)
  assume h: "prepare_front s operand_v indices_v updates_v dn st = Inr (f, st1)
   \<and> use_depth2_for_batched_window_scatter f"
  then have front: "prepare_front s operand_v indices_v updates_v dn st = Inr (f, st1)"
    and use: "use_depth2_for_batched_window_scatter f"
    by simp_all
  have run: "prepare_scatter_inputs_for_onnx s operand_v indices_v updates_v dn st
           = batched_window_path s f dn st1"
    using front use by (rule prepare_batched_window)
  have "detect_batched_window s dn (operand_shape_symbolic f) (jax_indices_shape_symbolic f)
           (original_updates_shape_symbolic f) = Inr True"
    using prepare_front_fields(1) [OF front] use by simp
  note det = detect_batched_window_True [OF this]
  have names: "final_operand_name f = var_name operand_v" "original_updates_name f = var_name updates_v"
    using prepare_front_fields(2,3) [OF front] by simp_all
  have sd: "0 < length (scatter_dims_to_operand_dims dn)"
    using det(1) by simp
  show "(case make_shape_concrete_for_prod (operand_shape_symbolic f) s ''d2_op_shape'' of
        Inl e \<Rightarrow>
          prepare_scatter_inputs_for_onnx s operand_v indices_v updates_v dn st = Inl e
          \<and> (\<exists>d i. e = CannotMakeConcrete ''d2_op_shape'' (operand_shape_symbolic f) d i
                   \<and> i < length (operand_shape_symbolic f) \<and> operand_shape_symbolic f ! i = d)
      | Inr _ \<Rightarrow>
          (case make_shape_concrete_for_prod (original_updates_shape_symbolic f) s ''d2_upd_shape'' of
             Inl e \<Rightarrow>
               prepare_scatter_inputs_for_onnx s operand_v indices_v updates_v dn st = Inl e
               \<and> (\<exists>d i. e = CannotMakeConcrete ''d2_upd_shape'' (original_updates_shape_symbolic f) d i
                        \<and> i < length (original_updates_shape_symbolic f)
                        \<and> original_updates_shape_symbolic f ! i = d)
           | Inr _ \<Rightarrow>
               (\<exists>idx st'. prepare_scatter_inputs_for_onnx s operand_v indices_v updates_v dn st
                            = Inr ((var_name operand_v, idx, var_name updates_v), st'))))"
  proof (cases "make_shape_concrete_for_prod (operand_shape_symbolic f) s ''d2_op_shape''")
    case (Inl e)
    then show ?thesis
      using batched_window_path_fails_operand [OF Inl sd, of st1]
        make_shape_concrete_for_prod_error [OF Inl]
      by (simp add: run)
  next
    case op_ok: (Inr c1)
    show ?thesis
    proof (cases "make_shape_concrete_for_prod (original_updates_shape_symbolic f) s ''d2_upd_shape''")
      case (Inl e)
      then show ?thesis
        using batched_window_path_fails_updates [OF op_ok Inl sd, of st1]
          make_shape_concrete_for_prod_error [OF Inl]
        by (simp add: run op_ok)
    next
      case (Inr c2)
      have "\<exists>idx st'. batched_window_path s f dn st1
                     = Inr ((final_operand_name f, idx, original_updates_name f), st')"
        using op_ok Inr sd det(3) det(4) by (rule batched_window_path_returns)
      then show ?thesis
        by (simp add: run op_ok Inr names)
    qed
  qed
qed

theorem batched_window_requires_concrete_shapes_witness:
  "(\<exists>d i. prepare_scatter_inputs_for_onnx plain_converter window_operand window_indices
             window_updates window_dnums empty_conv_state
           = Inl (CannotMakeConcrete ''d2_op_shape'' [symbolic_B, PyInt 6] d i))
   \<and> (\<exists>idx st'. prepare_scatter_inputs_for_onnx plain_converter window_operand_concrete
                  window_indices window_updates_concrete window_dnums empty_conv_state
                = Inr ((''operand'', idx, ''updates''), st'))"
proof -
  obtain f st1 where
    f: "prepare_front plain_converter window_operand window_indices window_updates
              window_dnums empty_conv_state = Inr (f, st1)
        \<and> use_depth2_for_batched_window_scatter f"
    and shp: "operand_shape_symbolic f = [symbolic_B, PyInt 6]"
    using window_front_symbolic by blast
  have fail: "make_shape_concrete_for_prod [symbolic_B, PyInt 6] plain_converter ''d2_op_shape''
              = Inl (CannotMakeConcrete ''d2_op_shape'' [symbolic_B, PyInt 6] symbolic_B 0)"
    by (simp add: legalizer_eval_defs legalizer_example_defs)
  have first: "\<exists>d i. prepare_scatter_inputs_for_onnx plain_converter window_operand window_indices
             window_updates window_dnums empty_conv_state
           = Inl (CannotMakeConcrete ''d2_op_shape'' [symbolic_B, PyInt 6] d i)"
    using batched_window_requires_concrete_shapes [of plain_converter window_operand
        window_indices window_updates window_dnums empty_conv_state f st1] f
    by (simp add: shp fail)
  obtain g st2 where
    g: "prepare_front plain_converter window_operand_concrete window_indices
              window_updates_concrete window_dnums empty_conv_state = Inr (g, st2)
        \<and> use_depth2_for_batched_window_scatter g"
    and gs: "operand_shape_symbolic g = [PyInt 4, PyInt 6]"
      "original_updates_shape_symbolic g = [PyInt 4, PyInt 6]"
    using window_front_concrete by blast
  have ok: "make_shape_concrete_for_prod [PyInt 4, PyInt 6] plain_converter ''d2_op_shape'' = Inr [4, 6]"
    "make_shape_concrete_for_prod [PyInt 4, PyInt 6] plain_converter ''d2_upd_shape'' = Inr [4, 6]"
    by (simp_all add: legalizer_eval_defs)
  have second: "\<exists>idx st'. prepare_scatter_inputs_for_onnx plain_converter window_operand_concrete
                  window_indices window_updates_concrete window_dnums empty_conv_state
                = Inr ((''operand'', idx, ''updates''), st')"
    using batched_window_requires_concrete_shapes [of plain_converter window_operand_concrete
        window_indices window_updates_concrete window_dnums empty_conv_state g st2] g
    by (simp add: gs ok window_operand_concrete_def window_updates_concrete_def)
  from first second show ?thesis by (rule conjI)
qed

subsection \<open>The default path\<close>

lemma np_prod_in_range:
  "- (2 ^ 63) \<le> prod_list xs \<Longrightarrow> prod_list xs < 2 ^ 63 \<Longrightarrow> np_prod xs = prod_list xs"
  by (simp add: np_prod_def sint_sbintrunc' signed_take_bit_int_eq_self)

lemma element_count_facts:
  "element_count [] = 1"
  "0 \<in> set c \<Longrightarrow> element_count c = 0"
  "c \<noteq> [] \<Longrightarrow> 0 \<notin> set c \<Longrightarrow> - (2 ^ 63) \<le> prod_list c \<Longrightarrow> prod_list c < 2 ^ 63 \<Longrightarrow>
   element_count c = prod_list c"
  by (auto simp: element_count_def Let_def list_ex_iff np_prod_in_range)

lemma concrete_dim_independent:
  "concrete_dim s shp ctx i d = Inr v \<Longrightarrow> concrete_dim s shp' ctx' i' d = Inr v"
  by (auto simp: concrete_dim_def Let_def split: sdim.splits option.splits)

lemma make_concrete_from_dims:
  "make_concrete_from s shp ctx i ds = Inr c \<Longrightarrow>
   \<forall>d\<in>set ds. \<exists>v. concrete_dim s [] [] 0 d = Inr v"
proof (induction ds arbitrary: i c)
  case Nil
  show ?case by simp
next
  case (Cons d ds)
  from Cons.prems obtain v vs where
    v: "concrete_dim s shp ctx i d = Inr v"
    and vs: "make_concrete_from s shp ctx (Suc i) ds = Inr vs"
    by (auto simp: bind_result_def split: sum.splits)
  from v have "concrete_dim s [] [] 0 d = Inr v"
    by (rule concrete_dim_independent)
  with Cons.IH [OF vs] show ?case by auto
qed

lemma make_concrete_single:
  "concrete_dim s [] [] 0 d = Inr v \<Longrightarrow> make_shape_concrete_for_prod [d] s ctx = Inr [v]"
  using concrete_dim_independent [of s "[]" "[]" 0 d v "[d]" ctx 0]
  by (simp add: make_shape_concrete_for_prod_def bind_result_def)

lemma reshape_target_list_total:
  "\<forall>d\<in>set ds. \<exists>v. concrete_dim s [] [] 0 d = Inr v \<Longrightarrow>
   \<exists>r. reshape_target_list s ctx i flag ds = Inr r"
proof (induction ds arbitrary: i flag)
  case Nil
  show ?case by simp
next
  case (Cons d ds)
  from Cons.prems obtain v where v: "concrete_dim s [] [] 0 d = Inr v"
    by auto
  have rest: "\<exists>r. reshape_target_list s ctx (Suc i) fl ds = Inr r" for fl
    using Cons.IH Cons.prems by simp
  show ?case
  proof (cases d)
    case (PyInt x)
    with rest [of flag] show ?thesis
      by (auto simp: bind_result_def)
  next
    case (NpInt x)
    with rest [of True] make_concrete_single [OF v, of "ctx @ string_of_nat i"] show ?thesis
      by (auto simp: bind_result_def)
  next
    case (Obj n l c)
    with rest [of True] make_concrete_single [OF v, of "ctx @ string_of_nat i"] show ?thesis
      by (auto simp: bind_result_def)
  qed
qed

lemma dims_all_equal_total:
  "\<forall>p\<in>set ps. \<exists>r. are_dims_equal s (fst p) (snd p) = Inr r \<Longrightarrow>
   \<exists>r. dims_all_equal s ps = Inr r"
proof (induction ps)
  case Nil
  have "dims_all_equal s [] = Inr True" by simp
  then show ?case ..
next
  case (Cons p ps)
  obtain a b where p: "p = (a, b)" by (cases p)
  from Cons.prems p obtain eq where eq: "are_dims_equal s a b = Inr eq"
    by auto
  from Cons.IH Cons.prems obtain r' where r': "dims_all_equal s ps = Inr r'"
    by auto
  have "dims_all_equal s (p # ps) = Inr (if eq then r' else False)"
    using eq r' p by (simp add: bind_result_def)
  then show ?case ..
qed

lemma are_shapes_equal_total:
  assumes "\<forall>a\<in>set xs. \<forall>b\<in>set ys. \<exists>r. are_dims_equal s a b = Inr r"
  shows "\<exists>r. are_shapes_equal s xs ys = Inr r"
proof (cases "length xs = length ys")
  case True
  have "fst p \<in> set xs \<and> snd p \<in> set ys" if "p \<in> set (zip xs ys)" for p
    using set_zip_leftD [of "fst p" "snd p" xs ys] set_zip_rightD [of "fst p" "snd p" xs ys] that
    by simp
  then have "\<forall>p\<in>set (zip xs ys). \<exists>r. are_dims_equal s (fst p) (snd p) = Inr r"
    using assms by blast
  then obtain r where "dims_all_equal s (zip xs ys) = Inr r"
    using dims_all_equal_total by blast
  with True have "are_shapes_equal s xs ys = Inr r"
    by (simp add: are_shapes_equal_def)
  then show ?thesis ..
next
  case False
  then have "are_shapes_equal s xs ys = Inr False"
    by (simp add: are_shapes_equal_def)
  then show ?thesis ..
qed

lemma find_squeeze_axis_total:
  assumes "\<forall>a\<in>set original. \<forall>b\<in>set expected. \<exists>r. are_dims_equal s a b = Inr r"
  shows "\<exists>r. find_squeeze_axis s original expected axes = Inr r"
proof (induction axes)
  case Nil
  have "find_squeeze_axis s original expected [] = Inr None" by simp
  then show ?case ..
next
  case (Cons i axes)
  then obtain rest where rest: "find_squeeze_axis s original expected axes = Inr rest"
    by blast
  have "set (take i original @ drop (Suc i) original) \<subseteq> set original"
    using set_take_subset [of i original] set_drop_subset [of "Suc i" original] by auto
  then have "\<forall>a\<in>set (take i original @ drop (Suc i) original). \<forall>b\<in>set expected.
               \<exists>r. are_dims_equal s a b = Inr r"
    using assms by blast
  then obtain m where
    m: "are_shapes_equal s (take i original @ drop (Suc i) original) expected = Inr m"
    using are_shapes_equal_total by blast
  have "find_squeeze_axis s original expected (i # axes)
          = Inr (if py_eq_one (original ! i) \<and> m then Some i else rest)"
    using rest m by (simp add: bind_result_def)
  then show ?case ..
qed

lemma reconcile_updates_body_mismatch:
  assumes "make_shape_concrete_for_prod (original_updates_shape_symbolic f) s
             ''orig_updates_nelem_default'' = Inr co"
    and "make_shape_concrete_for_prod (current_expected_onnx_updates_shape f) s
             ''exp_updates_nelem_default'' = Inr ce"
    and "element_count co \<noteq> element_count ce"
  shows "reconcile_updates_body s f dn st =
           Inl (ElementCountMismatch (original_updates_shape_symbolic f) (element_count co)
                  (current_expected_onnx_updates_shape f) (element_count ce)
                  (final_operand_name f) (operand_shape_symbolic f)
                  (final_indices_name f) (processed_indices_shape f) dn)"
  using assms by (auto simp: reconcile_updates_body_def bind_result_def Let_def)

lemma reconcile_updates_body_both_zero:
  assumes "make_shape_concrete_for_prod (original_updates_shape_symbolic f) s
             ''orig_updates_nelem_default'' = Inr co"
    and "make_shape_concrete_for_prod (current_expected_onnx_updates_shape f) s
             ''exp_updates_nelem_default'' = Inr ce"
    and "element_count co = 0" and "element_count ce = 0"
  shows "reconcile_updates_body s f dn st =
           Inr (original_updates_name f,
                manually_ensure_shape_env_entry s (original_updates_name f)
                  (current_expected_onnx_updates_shape f) (original_updates_dtype f) st)"
  using assms by (simp add: reconcile_updates_body_def bind_result_def Let_def)

lemma reconcile_updates_body_search_raises:
  assumes co: "make_shape_concrete_for_prod (original_updates_shape_symbolic f) s
             ''orig_updates_nelem_default'' = Inr co"
    and ce: "make_shape_concrete_for_prod (current_expected_onnx_updates_shape f) s
             ''exp_updates_nelem_default'' = Inr ce"
    and eq: "element_count co = element_count ce" and nz: "element_count co \<noteq> 0"
    and sq: "(if length (original_updates_shape_symbolic f)
                  = length (current_expected_onnx_updates_shape f) + 1
              then find_squeeze_axis s (original_updates_shape_symbolic f)
                     (current_expected_onnx_updates_shape f)
                     [0..<length (original_updates_shape_symbolic f)]
              else Inr None) = Inl e"
  shows "reconcile_updates_body s f dn st = Inl e"
  using co ce eq nz sq
  unfolding reconcile_updates_body_def
  by (simp add: bind_result_def Let_def)

lemma reconcile_updates_body_rewrites:
  assumes co: "make_shape_concrete_for_prod (original_updates_shape_symbolic f) s
             ''orig_updates_nelem_default'' = Inr co"
    and ce: "make_shape_concrete_for_prod (current_expected_onnx_updates_shape f) s
             ''exp_updates_nelem_default'' = Inr ce"
    and eq: "element_count co = element_count ce" and nz: "element_count co \<noteq> 0"
    and sq: "(if length (original_updates_shape_symbolic f)
                  = length (current_expected_onnx_updates_shape f) + 1
              then find_squeeze_axis s (original_updates_shape_symbolic f)
                     (current_expected_onnx_updates_shape f)
                     [0..<length (original_updates_shape_symbolic f)]
              else Inr None) = Inr sq"
  shows "\<exists>new_name arg op st2.
           reconcile_updates_body s f dn st = Inr (new_name, st2)
           \<and> (op = ''Squeeze'' \<or> op = ''Reshape'')
           \<and> emitted_nodes st2
               = emitted_nodes st @ [Node [] op [original_updates_name f, arg] [new_name] []]"
proof -
  define original where "original = original_updates_shape_symbolic f"
  define expected where "expected = current_expected_onnx_updates_shape f"
  define name where "name = original_updates_name f"
  have "\<forall>d\<in>set expected. \<exists>v. concrete_dim s [] [] 0 d = Inr v"
    using ce unfolding make_shape_concrete_for_prod_def expected_def
    by (rule make_concrete_from_dims)
  then obtain tl where
    tl: "reshape_target_list s ''reshape_target_updates_dim_def_'' 0 False expected = Inr tl"
    using reshape_target_list_total by blast
  have body: "reconcile_updates_body s f dn st =
     (case sq of
        Some squeeze_axis \<Rightarrow>
          (let (squeezed_updates_name, st1) = get_unique_name s (name @ ''_squeezed_default'') st;
               (axes, st2) = get_constant_name s (VectorArray [int squeeze_axis]) st1;
               st3 = emit ''Squeeze'' [name, axes] [squeezed_updates_name] [] st2;
               st4 = manually_ensure_shape_env_entry s squeezed_updates_name expected
                       (original_updates_dtype f) st3
           in Inr (squeezed_updates_name, st4))
      | None \<Rightarrow>
          (let (reshaped_updates_name, st1) = get_unique_name s (name @ ''_reshaped_default'') st;
               (shape_const, st2) = get_constant_name s (VectorArray tl) st1;
               st3 = emit ''Reshape'' [name, shape_const] [reshaped_updates_name] [] st2;
               st4 = manually_ensure_shape_env_entry s reshaped_updates_name expected
                       (original_updates_dtype f) st3
           in Inr (reshaped_updates_name, st4)))"
    using co ce eq nz sq tl
    unfolding reconcile_updates_body_def original_def expected_def name_def
    by (simp add: bind_result_def Let_def case_prod_beta split: option.splits)
  show ?thesis
  proof (cases sq)
    case None
    show ?thesis
      unfolding body None name_def [symmetric]
      by (intro exI [of _ "fst (get_unique_name s (name @ ''_reshaped_default'') st)"]
          exI [of _ "constant_name_for s (Suc (names_issued st))"] exI [of _ "''Reshape''"])
        (simp add: get_unique_name_def get_constant_name_def emit_def
          manually_ensure_shape_env_entry_def Let_def)
  next
    case (Some axis)
    show ?thesis
      unfolding body Some name_def [symmetric]
      by (intro exI [of _ "fst (get_unique_name s (name @ ''_squeezed_default'') st)"]
          exI [of _ "constant_name_for s (Suc (names_issued st))"] exI [of _ "''Squeeze''"])
        (simp add: get_unique_name_def get_constant_name_def emit_def
          manually_ensure_shape_env_entry_def Let_def)
  qed
qed

lemma reconcile_updates_handler_mismatch:
  "reconcile_updates_handler f dn (ElementCountMismatch a b c d e g h i j)
     = ElementCountMismatch a b c d e g h i j"
  by (simp add: reconcile_updates_handler_def)

lemma row_front_empty:
  "\<exists>f st1. prepare_front plain_converter empty_row_operand row_indices empty_row_updates
              row_dnums empty_conv_state = Inr (f, st1)
     \<and> \<not> use_depth2_for_batched_window_scatter f
     \<and> original_updates_shape_symbolic f = [PyInt 0]
     \<and> current_expected_onnx_updates_shape f = [PyInt 1, PyInt 0]"
  by (simp add: legalizer_eval_defs legalizer_example_defs)

lemma row_front_short:
  "\<exists>f st1. prepare_front plain_converter row_operand row_indices row_updates_short
              row_dnums empty_conv_state = Inr (f, st1)
     \<and> \<not> use_depth2_for_batched_window_scatter f
     \<and> original_updates_shape_symbolic f = [PyInt 4]
     \<and> current_expected_onnx_updates_shape f = [PyInt 1, PyInt 3]"
  by (simp add: legalizer_eval_defs legalizer_example_defs)

lemma row_front_full:
  "\<exists>f st1. prepare_front plain_converter row_operand row_indices row_updates
              row_dnums empty_conv_state = Inr (f, st1)
     \<and> \<not> use_depth2_for_batched_window_scatter f
     \<and> original_updates_shape_symbolic f = [PyInt 3]
     \<and> current_expected_onnx_updates_shape f = [PyInt 1, PyInt 3]"
  by (simp add: legalizer_eval_defs legalizer_example_defs)

lemma reconcile_updates_handler_int_conversion:
  "reconcile_updates_handler f dn (IntConversionTypeError d) = IntConversionTypeError d"
  "reconcile_updates_handler f dn (IntConversionValueError d)
     = CouldNotPrepareUpdates (IntConversionValueError d) (final_operand_name f)
         (operand_shape_symbolic f) (final_indices_name f) (processed_indices_shape f) dn"
  by (simp_all add: reconcile_updates_handler_def)

lemma py_int_error:
  "py_int d = Inl e \<Longrightarrow> (\<exists>x. e = IntConversionTypeError x) \<or> (\<exists>x. e = IntConversionValueError x)"
  by (cases d rule: py_int.cases) auto

lemma are_dims_equal_error:
  "are_dims_equal s a b = Inl e \<Longrightarrow>
     (\<exists>x. e = IntConversionTypeError x) \<or> (\<exists>x. e = IntConversionValueError x)"
  using py_int_error [of a e] py_int_error [of b e]
  by (auto simp: are_dims_equal_def bind_result_def Let_def split: if_splits sum.splits)

lemma dims_all_equal_error:
  "dims_all_equal s ps = Inl e \<Longrightarrow>
     (\<exists>x. e = IntConversionTypeError x) \<or> (\<exists>x. e = IntConversionValueError x)"
proof (induction ps)
  case Nil
  then show ?case by simp
next
  case (Cons p ps)
  obtain a b where p: "p = (a, b)" by (cases p)
  show ?case
  proof (cases "are_dims_equal s a b")
    case (Inl e')
    with Cons.prems p have "e' = e" by (simp add: bind_result_def)
    with Inl are_dims_equal_error show ?thesis by blast
  next
    case (Inr r)
    with Cons.prems p have "r" "dims_all_equal s ps = Inl e"
      by (simp_all add: bind_result_def split: if_splits)
    with Cons.IH show ?thesis by blast
  qed
qed

lemma are_shapes_equal_error:
  "are_shapes_equal s xs ys = Inl e \<Longrightarrow>
     (\<exists>x. e = IntConversionTypeError x) \<or> (\<exists>x. e = IntConversionValueError x)"
  using dims_all_equal_error [of s "zip xs ys" e]
  by (simp add: are_shapes_equal_def split: if_splits)

lemma find_squeeze_axis_error:
  "find_squeeze_axis s original expected is = Inl e \<Longrightarrow>
     (\<exists>x. e = IntConversionTypeError x) \<or> (\<exists>x. e = IntConversionValueError x)"
proof (induction "is")
  case Nil
  then show ?case by simp
next
  case (Cons i rest)
  show ?case
  proof (cases "py_eq_one (original ! i)")
    case False
    with Cons show ?thesis by simp
  next
    case True
    show ?thesis
    proof (cases "are_shapes_equal s (take i original @ drop (Suc i) original) expected")
      case (Inl e')
      with Cons.prems True have "e' = e" by (simp add: bind_result_def)
      with Inl are_shapes_equal_error show ?thesis by blast
    next
      case (Inr m)
      with Cons.prems True have "find_squeeze_axis s original expected rest = Inl e"
        by (simp add: bind_result_def split: if_splits)
      with Cons.IH show ?thesis by blast
    qed
  qed
qed

lemma convertible_dims_comparable:
  assumes "\<forall>d\<in>set xs \<union> set ys. is_dim_symbolic s d \<or> (\<exists>v. py_int d = Inr v)"
  shows "\<forall>a\<in>set xs. \<forall>b\<in>set ys. \<exists>r. are_dims_equal s a b = Inr r"
proof (intro ballI)
  fix a b assume "a \<in> set xs" "b \<in> set ys"
  with assms have "is_dim_symbolic s a \<or> (\<exists>v. py_int a = Inr v)"
    "is_dim_symbolic s b \<or> (\<exists>v. py_int b = Inr v)" by auto
  then show "\<exists>r. are_dims_equal s a b = Inr r"
    by (auto simp: are_dims_equal_def bind_result_def Let_def)
qed

lemma padded_updates_front:
  "\<exists>f st1. prepare_front lenient_converter wide_operand row_indices padded_updates
              row_dnums empty_conv_state = Inr (f, st1)
     \<and> \<not> use_depth2_for_batched_window_scatter f
     \<and> original_updates_shape_symbolic f = [PyInt 1, PyInt 1, unconvertible_X]
     \<and> current_expected_onnx_updates_shape f = [PyInt 1, unconvertible_X]"
  by (simp add: legalizer_eval_defs legalizer_example_defs)

lemma padded_updates_shapes:
  "are_shapes_equal lenient_converter [PyInt 1, PyInt 1, unconvertible_X]
     [PyInt 1, unconvertible_X] = Inr False"
  "make_shape_concrete_for_prod [PyInt 1, PyInt 1, unconvertible_X] lenient_converter
     ''orig_updates_nelem_default'' = Inr [1, 1, 3]"
  "make_shape_concrete_for_prod [PyInt 1, unconvertible_X] lenient_converter
     ''exp_updates_nelem_default'' = Inr [1, 3]"
  by (simp_all add: legalizer_eval_defs legalizer_example_defs)

lemma padded_updates_raise:
  "prepare_scatter_inputs_for_onnx lenient_converter wide_operand row_indices padded_updates
     row_dnums empty_conv_state = Inl (IntConversionTypeError unconvertible_X)"
  by (simp add: legalizer_eval_defs legalizer_example_defs upt_rec)

text \<open>
  Claim C2, as stated, fails where both counts are zero: with operand \<open>(5, 0)\<close>, one index
  vector and updates \<open>(0,)\<close>, the expected updates shape is \<open>(1, 0)\<close>, both element counts
  are \<open>0\<close>, and the legalizer returns the original updates name without emitting a
  Reshape or a Squeeze of the updates (the one node emitted reshapes the indices).
\<close>

theorem empty_updates_accepted_without_rewrite:
  "\<exists>f st1 idx arg st'.
     prepare_front plain_converter empty_row_operand row_indices empty_row_updates
       row_dnums empty_conv_state = Inr (f, st1)
     \<and> \<not> use_depth2_for_batched_window_scatter f
     \<and> original_updates_shape_symbolic f = [PyInt 0]
     \<and> current_expected_onnx_updates_shape f = [PyInt 1, PyInt 0]
     \<and> are_shapes_equal plain_converter [PyInt 0] [PyInt 1, PyInt 0] = Inr False
     \<and> make_shape_concrete_for_prod [PyInt 0] plain_converter ''orig_updates_nelem_default'' = Inr [0]
     \<and> make_shape_concrete_for_prod [PyInt 1, PyInt 0] plain_converter ''exp_updates_nelem_default''
         = Inr [1, 0]
     \<and> element_count [0] = 0 \<and> element_count [1, 0] = 0
     \<and> prepare_scatter_inputs_for_onnx plain_converter empty_row_operand row_indices
         empty_row_updates row_dnums empty_conv_state
        = Inr ((''operand'', idx, ''updates''), st')
     \<and> emitted_nodes st' = [Node [] ''Reshape'' [''indices'', arg] [idx] []]"
  by (simp add: legalizer_eval_defs legalizer_example_defs)

text \<open>
  Claim C2, amended. In the default path, when the original updates shape compares as
  different from the expected one and both shapes can be made concrete, the element
  counts are compared (\<open>1\<close> for the empty shape, \<open>0\<close> when some dimension is \<open>0\<close>,
  otherwise the product, which is the true product when it fits 64 bits). If the
  counts differ the legalizer raises the mismatch error, which carries both shapes,
  both counts, the operand, the indices and the dimension numbers. If both counts are
  zero it emits nothing for the updates and returns the original updates name,
  recording the expected shape for it. If the counts are equal and not zero it either
  emits exactly one more node, a Squeeze or a Reshape of the original updates, and
  returns the new name, or the search for a squeezable axis fails to convert a
  dimension with \<open>int()\<close> and that error is raised: a \<open>TypeError\<close> as it is, a
  \<open>ValueError\<close> wrapped in the "could not prepare updates" error. When every dimension
  of both shapes that the converter rates as not symbolic converts with \<open>int()\<close>, the
  search cannot fail and the rewrite is emitted.
\<close>

theorem default_path_element_counts:
  "(prepare_front s operand_v indices_v updates_v dn st = Inr (f, st1)
    \<and> \<not> use_depth2_for_batched_window_scatter f
    \<and> are_shapes_equal s (original_updates_shape_symbolic f)
         (current_expected_onnx_updates_shape f) = Inr False
    \<and> make_shape_concrete_for_prod (original_updates_shape_symbolic f) s
         ''orig_updates_nelem_default'' = Inr co
    \<and> make_shape_concrete_for_prod (current_expected_onnx_updates_shape f) s
         ''exp_updates_nelem_default'' = Inr ce
    \<longrightarrow>
      (element_count co \<noteq> element_count ce \<longrightarrow>
         prepare_scatter_inputs_for_onnx s operand_v indices_v updates_v dn st =
           Inl (ElementCountMismatch (original_updates_shape_symbolic f) (element_count co)
                  (current_expected_onnx_updates_shape f) (element_count ce)
                  (var_name operand_v) (operand_shape_symbolic f)
                  (final_indices_name f) (processed_indices_shape f) dn))
      \<and> (element_count co = 0 \<and> element_count ce = 0 \<longrightarrow>
           prepare_scatter_inputs_for_onnx s operand_v indices_v updates_v dn st =
             Inr ((var_name operand_v, final_indices_name f, var_name updates_v),
                  manually_ensure_shape_env_entry s (var_name updates_v)
                    (current_expected_onnx_updates_shape f) (original_updates_dtype f) st1))
      \<and> (element_count co = element_count ce \<and> element_count co \<noteq> 0 \<longrightarrow>
           (\<exists>new_name arg op st2.
              prepare_scatter_inputs_for_onnx s operand_v indices_v updates_v dn st =
                Inr ((var_name operand_v, final_indices_name f, new_name), st2)
              \<and> (op = ''Squeeze'' \<or> op = ''Reshape'')
              \<and> emitted_nodes st2
                  = emitted_nodes st1 @ [Node [] op [var_name updates_v, arg] [new_name] []])
           \<or> (\<exists>d. prepare_scatter_inputs_for_onnx s operand_v indices_v updates_v dn st =
                     Inl (IntConversionTypeError d))
              \<or> (\<exists>d. prepare_scatter_inputs_for_onnx s operand_v indices_v updates_v dn st =
                     Inl (CouldNotPrepareUpdates (IntConversionValueError d)
                            (var_name operand_v) (operand_shape_symbolic f)
                            (final_indices_name f) (processed_indices_shape f) dn)))
      \<and> (element_count co = element_count ce \<and> element_count co \<noteq> 0
           \<and> (\<forall>d\<in>set (original_updates_shape_symbolic f)
                    \<union> set (current_expected_onnx_updates_shape f).
                  is_dim_symbolic s d \<or> (\<exists>v. py_int d = Inr v)) \<longrightarrow>
           (\<exists>new_name arg op st2.
              prepare_scatter_inputs_for_onnx s operand_v indices_v updates_v dn st =
                Inr ((var_name operand_v, final_indices_name f, new_name), st2)
              \<and> (op = ''Squeeze'' \<or> op = ''Reshape'')
              \<and> emitted_nodes st2
                  = emitted_nodes st1 @ [Node [] op [var_name updates_v, arg] [new_name] []])))
   \<and> element_count [] = 1
   \<and> (0 \<in> set c \<longrightarrow> element_count c = 0)
   \<and> (c \<noteq> [] \<and> 0 \<notin> set c \<and> - (2 ^ 63) \<le> prod_list c \<and> prod_list c < 2 ^ 63 \<longrightarrow>
        element_count c = prod_list c)"
proof -
  have main: "(element_count co \<noteq> element_count ce \<longrightarrow>
         prepare_scatter_inputs_for_onnx s operand_v indices_v updates_v dn st =
           Inl (ElementCountMismatch (original_updates_shape_symbolic f) (element_count co)
                  (current_expected_onnx_updates_shape f) (element_count ce)
                  (var_name operand_v) (operand_shape_symbolic f)
                  (final_indices_name f) (processed_indices_shape f) dn))
      \<and> (element_count co = 0 \<and> element_count ce = 0 \<longrightarrow>
           prepare_scatter_inputs_for_onnx s operand_v indices_v updates_v dn st =
             Inr ((var_name operand_v, final_indices_name f, var_name updates_v),
                  manually_ensure_shape_env_entry s (var_name updates_v)
                    (current_expected_onnx_updates_shape f) (original_updates_dtype f) st1))
      \<and> (element_count co = element_count ce \<and> element_count co \<noteq> 0 \<longrightarrow>
           (\<exists>new_name arg op st2.
              prepare_scatter_inputs_for_onnx s operand_v indices_v updates_v dn st =
                Inr ((var_name operand_v, final_indices_name f, new_name), st2)
              \<and> (op = ''Squeeze'' \<or> op = ''Reshape'')
              \<and> emitted_nodes st2
                  = emitted_nodes st1 @ [Node [] op [var_name updates_v, arg] [new_name] []])
           \<or> (\<exists>d. prepare_scatter_inputs_for_onnx s operand_v indices_v updates_v dn st =
                     Inl (IntConversionTypeError d))
              \<or> (\<exists>d. prepare_scatter_inputs_for_onnx s operand_v indices_v updates_v dn st =
                     Inl (CouldNotPrepareUpdates (IntConversionValueError d)
                            (var_name operand_v) (operand_shape_symbolic f)
                            (final_indices_name f) (processed_indices_shape f) dn)))
      \<and> (element_count co = element_count ce \<and> element_count co \<noteq> 0
           \<and> (\<forall>d\<in>set (original_updates_shape_symbolic f)
                    \<union> set (current_expected_onnx_updates_shape f).
                  is_dim_symbolic s d \<or> (\<exists>v. py_int d = Inr v)) \<longrightarrow>
           (\<exists>new_name arg op st2.
              prepare_scatter_inputs_for_onnx s operand_v indices_v updates_v dn st =
                Inr ((var_name operand_v, final_indices_name f, new_name), st2)
              \<and> (op = ''Squeeze'' \<or> op = ''Reshape'')
              \<and> emitted_nodes st2
                  = emitted_nodes st1 @ [Node [] op [var_name updates_v, arg] [new_name] []]))"
    if front: "prepare_front s operand_v indices_v updates_v dn st = Inr (f, st1)"
      and nouse: "\<not> use_depth2_for_batched_window_scatter f"
      and differ: "are_shapes_equal s (original_updates_shape_symbolic f)
         (current_expected_onnx_updates_shape f) = Inr False"
      and co: "make_shape_concrete_for_prod (original_updates_shape_symbolic f) s
         ''orig_updates_nelem_default'' = Inr co"
      and ce: "make_shape_concrete_for_prod (current_expected_onnx_updates_shape f) s
         ''exp_updates_nelem_default'' = Inr ce"
  proof -
    define search where "search =
      (if length (original_updates_shape_symbolic f)
            = length (current_expected_onnx_updates_shape f) + 1
       then find_squeeze_axis s (original_updates_shape_symbolic f)
              (current_expected_onnx_updates_shape f)
              [0..<length (original_updates_shape_symbolic f)]
       else Inr None)"
    have names: "final_operand_name f = var_name operand_v"
      "original_updates_name f = var_name updates_v"
      using prepare_front_fields(2,3) [OF front] by simp_all
    have run: "prepare_scatter_inputs_for_onnx s operand_v indices_v updates_v dn st
           = bind_result (reconcile_updates_default s f dn st1)
               (\<lambda>(updates_name, st2).
                  Inr ((final_operand_name f, final_indices_name f, updates_name), st2))"
      using front nouse by (rule prepare_default)
    have dflt: "reconcile_updates_default s f dn st1 =
            (case reconcile_updates_body s f dn st1 of
               Inl ve \<Rightarrow> Inl (reconcile_updates_handler f dn ve)
             | Inr r \<Rightarrow> Inr r)"
      using differ by (simp add: reconcile_updates_default_def bind_result_def)
    have p1: "prepare_scatter_inputs_for_onnx s operand_v indices_v updates_v dn st =
           Inl (ElementCountMismatch (original_updates_shape_symbolic f) (element_count co)
                  (current_expected_onnx_updates_shape f) (element_count ce)
                  (var_name operand_v) (operand_shape_symbolic f)
                  (final_indices_name f) (processed_indices_shape f) dn)"
      if "element_count co \<noteq> element_count ce"
      using reconcile_updates_body_mismatch [OF co ce that, of dn st1]
      by (simp add: run dflt bind_result_def reconcile_updates_handler_mismatch names)
    have p2: "prepare_scatter_inputs_for_onnx s operand_v indices_v updates_v dn st =
             Inr ((var_name operand_v, final_indices_name f, var_name updates_v),
                  manually_ensure_shape_env_entry s (var_name updates_v)
                    (current_expected_onnx_updates_shape f) (original_updates_dtype f) st1)"
      if "element_count co = 0 \<and> element_count ce = 0"
      using reconcile_updates_body_both_zero [OF co ce, of dn st1] that
      by (simp add: run dflt bind_result_def names)
    have found: "(\<exists>new_name arg op st2.
              prepare_scatter_inputs_for_onnx s operand_v indices_v updates_v dn st =
                Inr ((var_name operand_v, final_indices_name f, new_name), st2)
              \<and> (op = ''Squeeze'' \<or> op = ''Reshape'')
              \<and> emitted_nodes st2
                  = emitted_nodes st1 @ [Node [] op [var_name updates_v, arg] [new_name] []])"
      if eq: "element_count co = element_count ce" and nz: "element_count co \<noteq> 0"
        and sq: "search = Inr sq" for sq
    proof -
      from reconcile_updates_body_rewrites [OF co ce eq nz sq [unfolded search_def], of dn st1]
      obtain new_name arg op st2 where
        body: "reconcile_updates_body s f dn st1 = Inr (new_name, st2)"
        and op: "op = ''Squeeze'' \<or> op = ''Reshape''"
        and em: "emitted_nodes st2
               = emitted_nodes st1 @ [Node [] op [original_updates_name f, arg] [new_name] []]"
        by blast
      have "prepare_scatter_inputs_for_onnx s operand_v indices_v updates_v dn st =
                Inr ((var_name operand_v, final_indices_name f, new_name), st2)"
        using body by (simp add: run dflt bind_result_def names)
      with op em show ?thesis
        unfolding names by blast
    qed
    have raised: "(\<exists>d. prepare_scatter_inputs_for_onnx s operand_v indices_v updates_v dn st =
                     Inl (IntConversionTypeError d))
              \<or> (\<exists>d. prepare_scatter_inputs_for_onnx s operand_v indices_v updates_v dn st =
                     Inl (CouldNotPrepareUpdates (IntConversionValueError d)
                            (var_name operand_v) (operand_shape_symbolic f)
                            (final_indices_name f) (processed_indices_shape f) dn))"
      if eq: "element_count co = element_count ce" and nz: "element_count co \<noteq> 0"
        and sq: "search = Inl e" for e
    proof -
      have body: "reconcile_updates_body s f dn st1 = Inl e"
        using co ce eq nz sq [unfolded search_def]
        by (rule reconcile_updates_body_search_raises)
      have res: "prepare_scatter_inputs_for_onnx s operand_v indices_v updates_v dn st
                   = Inl (reconcile_updates_handler f dn e)"
        using body by (simp add: run dflt bind_result_def)
      have "find_squeeze_axis s (original_updates_shape_symbolic f)
              (current_expected_onnx_updates_shape f)
              [0..<length (original_updates_shape_symbolic f)] = Inl e"
        using sq unfolding search_def by (simp split: if_splits)
      then consider d where "e = IntConversionTypeError d"
        | d where "e = IntConversionValueError d"
        using find_squeeze_axis_error by blast
      then show ?thesis
      proof cases
        case 1
        then show ?thesis
          using res by (simp add: reconcile_updates_handler_int_conversion)
      next
        case 2
        then show ?thesis
          using res by (simp add: reconcile_updates_handler_int_conversion names)
      qed
    qed
    have p3: "(\<exists>new_name arg op st2.
              prepare_scatter_inputs_for_onnx s operand_v indices_v updates_v dn st =
                Inr ((var_name operand_v, final_indices_name f, new_name), st2)
              \<and> (op = ''Squeeze'' \<or> op = ''Reshape'')
              \<and> emitted_nodes st2
                  = emitted_nodes st1 @ [Node [] op [var_name updates_v, arg] [new_name] []])
           \<or> (\<exists>d. prepare_scatter_inputs_for_onnx s operand_v indices_v updates_v dn st =
                     Inl (IntConversionTypeError d))
              \<or> (\<exists>d. prepare_scatter_inputs_for_onnx s operand_v indices_v updates_v dn st =
                     Inl (CouldNotPrepareUpdates (IntConversionValueError d)
                            (var_name operand_v) (operand_shape_symbolic f)
                            (final_indices_name f) (processed_indices_shape f) dn))"
      if "element_count co = element_count ce \<and> element_count co \<noteq> 0"
    proof (cases search)
      case (Inr sq)
      with that found [of sq] show ?thesis by blast
    next
      case (Inl e)
      with that raised [of e] show ?thesis by blast
    qed
    have p4: "(\<exists>new_name arg op st2.
              prepare_scatter_inputs_for_onnx s operand_v indices_v updates_v dn st =
                Inr ((var_name operand_v, final_indices_name f, new_name), st2)
              \<and> (op = ''Squeeze'' \<or> op = ''Reshape'')
              \<and> emitted_nodes st2
                  = emitted_nodes st1 @ [Node [] op [var_name updates_v, arg] [new_name] []])"
      if "element_count co = element_count ce \<and> element_count co \<noteq> 0
           \<and> (\<forall>d\<in>set (original_updates_shape_symbolic f)
                    \<union> set (current_expected_onnx_updates_shape f).
                  is_dim_symbolic s d \<or> (\<exists>v. py_int d = Inr v))"
    proof -
      from that have eq: "element_count co = element_count ce" and nz: "element_count co \<noteq> 0"
        and conv: "\<forall>d\<in>set (original_updates_shape_symbolic f)
                    \<union> set (current_expected_onnx_updates_shape f).
                  is_dim_symbolic s d \<or> (\<exists>v. py_int d = Inr v)"
        by simp_all
      have cmp: "\<forall>a\<in>set (original_updates_shape_symbolic f).
               \<forall>b\<in>set (current_expected_onnx_updates_shape f).
                 \<exists>r. are_dims_equal s a b = Inr r"
        using conv by (rule convertible_dims_comparable)
      have "\<exists>sq. search = Inr sq"
        using find_squeeze_axis_total [of "original_updates_shape_symbolic f"
            "current_expected_onnx_updates_shape f" s
            "[0..<length (original_updates_shape_symbolic f)]"] cmp
        unfolding search_def by auto
      then obtain sq where "search = Inr sq" ..
      with eq nz show ?thesis by (rule found)
    qed
    from p1 p2 p3 p4 show ?thesis
      by (intro conjI impI)
  qed
  have counts: "element_count [] = 1"
    "0 \<in> set c \<longrightarrow> element_count c = 0"
    "c \<noteq> [] \<and> 0 \<notin> set c \<and> - (2 ^ 63) \<le> prod_list c \<and> prod_list c < 2 ^ 63 \<longrightarrow>
        element_count c = prod_list c"
    using element_count_facts(1) element_count_facts(2) [of c] element_count_facts(3) [of c]
    by simp_all
  show ?thesis
    by (intro conjI counts) (intro impI, elim conjE, rule main; assumption)
qed

theorem default_path_element_counts_witness:
  "(\<exists>nm shp idx ishp.
      prepare_scatter_inputs_for_onnx plain_converter row_operand row_indices row_updates_short
        row_dnums empty_conv_state
      = Inl (ElementCountMismatch [PyInt 4] 4 [PyInt 1, PyInt 3] 3 nm shp idx ishp row_dnums))
   \<and> (\<exists>idx st'.
        prepare_scatter_inputs_for_onnx plain_converter empty_row_operand row_indices
          empty_row_updates row_dnums empty_conv_state
        = Inr ((''operand'', idx, ''updates''), st'))
   \<and> (\<exists>idx new_name arg op st2 earlier.
        prepare_scatter_inputs_for_onnx plain_converter row_operand row_indices row_updates
          row_dnums empty_conv_state
        = Inr ((''operand'', idx, new_name), st2)
        \<and> (op = ''Squeeze'' \<or> op = ''Reshape'')
        \<and> emitted_nodes st2 = earlier @ [Node [] op [''updates'', arg] [new_name] []])
   \<and> prepare_scatter_inputs_for_onnx lenient_converter wide_operand row_indices padded_updates
       row_dnums empty_conv_state
      = Inl (IntConversionTypeError unconvertible_X)
   \<and> element_count [2, 3] = 6 \<and> element_count [5, 0] = 0"
proof -
  have counts: "element_count [4] = 4" "element_count [1, 3] = 3" "element_count [3] = 3"
    "element_count [0] = 0" "element_count [1, 0] = 0" "element_count [1, 1, 3] = 3"
    by (simp_all add: element_count_facts)
  have names: "var_name row_operand = ''operand''" "var_name empty_row_operand = ''operand''"
    "var_name row_updates = ''updates''" "var_name empty_row_updates = ''updates''"
    by (simp_all add: legalizer_example_defs)
  have conv: "is_dim_symbolic plain_converter (PyInt x) \<or> (\<exists>v. py_int (PyInt x) = Inr v)" for x
    by simp
  have differ: "are_shapes_equal plain_converter [PyInt x] [PyInt y, PyInt z] = Inr False" for x y z
    by (simp add: are_shapes_equal_def)
  have conc: "make_shape_concrete_for_prod [PyInt x] plain_converter ctx = Inr [x]"
    "make_shape_concrete_for_prod [PyInt y, PyInt z] plain_converter ctx = Inr [y, z]"
    for x y z ctx
    by (simp_all add: make_shape_concrete_for_prod_def concrete_dim_def bind_result_def)

  obtain f st1 where
    f: "prepare_front plain_converter row_operand row_indices row_updates_short
              row_dnums empty_conv_state = Inr (f, st1)"
      "\<not> use_depth2_for_batched_window_scatter f"
    and fs: "original_updates_shape_symbolic f = [PyInt 4]"
      "current_expected_onnx_updates_shape f = [PyInt 1, PyInt 3]"
    using row_front_short by blast
  note t1 = default_path_element_counts [of plain_converter row_operand row_indices
      row_updates_short row_dnums empty_conv_state f st1 "[4]" "[1, 3]" "[2, 3]"]
  have first: "\<exists>nm shp idx ishp.
      prepare_scatter_inputs_for_onnx plain_converter row_operand row_indices row_updates_short
        row_dnums empty_conv_state
      = Inl (ElementCountMismatch [PyInt 4] 4 [PyInt 1, PyInt 3] 3 nm shp idx ishp row_dnums)"
    using t1 f differ [of 4 1 3] conc
    by (simp add: fs counts)

  obtain g st2 where
    g: "prepare_front plain_converter empty_row_operand row_indices empty_row_updates
              row_dnums empty_conv_state = Inr (g, st2)"
      "\<not> use_depth2_for_batched_window_scatter g"
    and gs: "original_updates_shape_symbolic g = [PyInt 0]"
      "current_expected_onnx_updates_shape g = [PyInt 1, PyInt 0]"
    using row_front_empty by blast
  note t2 = default_path_element_counts [of plain_converter empty_row_operand row_indices
      empty_row_updates row_dnums empty_conv_state g st2 "[0]" "[1, 0]" "[5, 0]"]
  have second: "\<exists>idx st'.
        prepare_scatter_inputs_for_onnx plain_converter empty_row_operand row_indices
          empty_row_updates row_dnums empty_conv_state
        = Inr ((''operand'', idx, ''updates''), st')"
    using t2 g differ [of 0 1 0] conc
    by (simp add: gs counts names)

  obtain h st3 where
    h: "prepare_front plain_converter row_operand row_indices row_updates
              row_dnums empty_conv_state = Inr (h, st3)"
      "\<not> use_depth2_for_batched_window_scatter h"
    and hs: "original_updates_shape_symbolic h = [PyInt 3]"
      "current_expected_onnx_updates_shape h = [PyInt 1, PyInt 3]"
    using row_front_full by blast
  note t3 = default_path_element_counts [of plain_converter row_operand row_indices
      row_updates row_dnums empty_conv_state h st3 "[3]" "[1, 3]" "[5, 0]"]
  have "\<exists>new_name arg op st2.
              prepare_scatter_inputs_for_onnx plain_converter row_operand row_indices row_updates
                row_dnums empty_conv_state =
                Inr ((''operand'', final_indices_name h, new_name), st2)
              \<and> (op = ''Squeeze'' \<or> op = ''Reshape'')
              \<and> emitted_nodes st2
                  = emitted_nodes st3 @ [Node [] op [''updates'', arg] [new_name] []]"
    using t3 h differ [of 3 1 3] conc conv
    by (simp add: hs counts names)
  then have third: "\<exists>idx new_name arg op st2 earlier.
        prepare_scatter_inputs_for_onnx plain_converter row_operand row_indices row_updates
          row_dnums empty_conv_state
        = Inr ((''operand'', idx, new_name), st2)
        \<and> (op = ''Squeeze'' \<or> op = ''Reshape'')
        \<and> emitted_nodes st2 = earlier @ [Node [] op [''updates'', arg] [new_name] []]"
    by blast

  obtain k st4 where
    k: "prepare_front lenient_converter wide_operand row_indices padded_updates
              row_dnums empty_conv_state = Inr (k, st4)"
      "\<not> use_depth2_for_batched_window_scatter k"
    and ks: "original_updates_shape_symbolic k = [PyInt 1, PyInt 1, unconvertible_X]"
      "current_expected_onnx_updates_shape k = [PyInt 1, unconvertible_X]"
    using padded_updates_front by blast
  note t4 = default_path_element_counts [of lenient_converter wide_operand row_indices
      padded_updates row_dnums empty_conv_state k st4 "[1, 1, 3]" "[1, 3]" "[5, 0]"]
  have outcomes: "(\<exists>new_name st2.
          prepare_scatter_inputs_for_onnx lenient_converter wide_operand row_indices
            padded_updates row_dnums empty_conv_state
          = Inr ((var_name wide_operand, final_indices_name k, new_name), st2))
       \<or> (\<exists>d. prepare_scatter_inputs_for_onnx lenient_converter wide_operand row_indices
                 padded_updates row_dnums empty_conv_state = Inl (IntConversionTypeError d))
       \<or> (\<exists>d. prepare_scatter_inputs_for_onnx lenient_converter wide_operand row_indices
                 padded_updates row_dnums empty_conv_state
               = Inl (CouldNotPrepareUpdates (IntConversionValueError d)
                        (var_name wide_operand) (operand_shape_symbolic k)
                        (final_indices_name k) (processed_indices_shape k) row_dnums))"
    using t4 k padded_updates_shapes
    by (simp add: ks counts) blast
  have fourth: "prepare_scatter_inputs_for_onnx lenient_converter wide_operand row_indices
       padded_updates row_dnums empty_conv_state
      = Inl (IntConversionTypeError unconvertible_X)"
    using padded_updates_raise .
  have more: "element_count [2, 3] = 6" "element_count [5, 0] = 0"
    using t3 t1 by (simp_all add: element_count_facts)
  from first second third fourth more show ?thesis
    by (intro conjI)
qed

end
